theory Spec2Isabelle
  imports Main "HOL-Library.Sublist"
begin

section \<open>Errors\<close>

text \<open>
  The values the runtime throws, each by its class and by what the object holds.  The
  classes of the shared package hold a message: \<open>CopilotKitMisuseError\<close> the message it is
  given, \<open>CopilotKitApiDiscoveryError\<close>, \<open>CopilotKitRemoteEndpointDiscoveryError\<close> and
  \<open>CopilotKitLowLevelError\<close> the message their constructor builds from its arguments,
  \<open>CopilotKitAgentDiscoveryError\<close> the message for the agent name given here.  A
  \<open>ResolvedCopilotKitError\<close> object keeps none of the arguments of its constructor.
  \<open>Error\<close> stands for every other thrown value (a plain \<open>Error\<close>, a \<open>TypeError\<close> of
  \<open>fetch\<close>, an exception of a user hook), with its message.
\<close>

datatype error =
    CopilotKitMisuseError string
  | CopilotKitApiDiscoveryError string
  | CopilotKitRemoteEndpointDiscoveryError string
  | ResolvedCopilotKitError
  | CopilotKitLowLevelError string
  | CopilotKitAgentDiscoveryError string
  | Error string

text \<open>
  Modelled from the spec: the class hierarchy of the shared package is absent from the
  sources.  Section 7 lists misuse, discovery failure, low-level transport failure and
  agent discovery failure as the typed domain errors that "pass through unchanged";
  \<open>error instanceof CopilotKitError\<close> holds for exactly those.
\<close>

fun isCopilotKitError :: "error \<Rightarrow> bool" where
  "isCopilotKitError (Error m) = False"
| "isCopilotKitError e = True"

section \<open>JSON values\<close>

datatype json =
    JNull
  | JBool bool
  | JNum int
  | JStr string
  | JArr "json list"
  | JObj "(string \<times> json) list"

fun digits :: "nat \<Rightarrow> string" where
  "digits n = (if n < 10 then [char_of (48 + n)] else digits (n div 10) @ [char_of (48 + n mod 10)])"

declare digits.simps [simp del]

definition hexdigit :: "nat \<Rightarrow> char" where
  "hexdigit n = (if n < 10 then char_of (48 + n) else char_of (87 + n))"

text \<open>The escapes of \<open>JSON.stringify\<close> for a string: quote, backslash and control characters.\<close>

definition escape_char :: "char \<Rightarrow> string" where
  "escape_char c =
     (if c = CHR 0x22 then [CHR 0x5C, CHR 0x22]
      else if c = CHR 0x5C then [CHR 0x5C, CHR 0x5C]
      else if c = CHR 0x08 then [CHR 0x5C, CHR ''b'']
      else if c = CHR 0x0C then [CHR 0x5C, CHR ''f'']
      else if c = CHR 0x0A then [CHR 0x5C, CHR ''n'']
      else if c = CHR 0x0D then [CHR 0x5C, CHR ''r'']
      else if c = CHR 0x09 then [CHR 0x5C, CHR ''t'']
      else if (of_char c :: nat) < 32
        then [CHR 0x5C, CHR ''u'', CHR ''0'', CHR ''0'',
              hexdigit (of_char c div 16), hexdigit (of_char c mod 16)]
      else [c])"

definition quote :: "string \<Rightarrow> string" where
  "quote s = [CHR 0x22] @ concat (map escape_char s) @ [CHR 0x22]"

text \<open>
  \<open>JSON.stringify\<close> without indentation, on JSON values: members in the object's own
  order, separated by commas, no white space.  \<open>JNum n\<close> stands for the number \<open>n\<close> where a
  double holds it exactly and prints its digits (up to \<open>2^53\<close> in absolute value); other
  numbers have no value here.
\<close>

fun JSON_stringify :: "json \<Rightarrow> string"
  and stringify_elements :: "json list \<Rightarrow> string"
  and stringify_members :: "(string \<times> json) list \<Rightarrow> string" where
  "JSON_stringify JNull = ''null''"
| "JSON_stringify (JBool b) = (if b then ''true'' else ''false'')"
| "JSON_stringify (JNum n) = (if n < 0 then ''-'' @ digits (nat (- n)) else digits (nat n))"
| "JSON_stringify (JStr s) = quote s"
| "JSON_stringify (JArr xs) = ''['' @ stringify_elements xs @ '']''"
| "JSON_stringify (JObj kvs) = ''{'' @ stringify_members kvs @ ''}''"
| "stringify_elements [] = ''''"
| "stringify_elements (x # xs) =
     JSON_stringify x @ (case xs of [] \<Rightarrow> '''' | _ \<Rightarrow> '','' @ stringify_elements xs)"
| "stringify_members [] = ''''"
| "stringify_members (kv # kvs) =
     quote (fst kv) @ '':'' @ JSON_stringify (snd kv)
       @ (case kvs of [] \<Rightarrow> '''' | _ \<Rightarrow> '','' @ stringify_members kvs)"

section \<open>Action inputs and the deduplicator\<close>

datatype ActionInputAvailability = disabled | enabled | remote

record ActionInput =
  name :: string
  description :: string
  jsonSchema :: string
  available :: "ActionInputAvailability option"

text \<open>
  The loop of \<open>flattenToolCallsNoDuplicates\<close>: the two local arrays \<open>allTools\<close> and
  \<open>allToolNames\<close> are the loop state, \<open>push\<close> appends at the end.
\<close>

fun flatten_loop :: "ActionInput list \<Rightarrow> ActionInput list \<Rightarrow> string list \<Rightarrow> ActionInput list" where
  "flatten_loop [] allTools allToolNames = allTools"
| "flatten_loop (tool # rest) allTools allToolNames =
     (if ActionInput.name tool \<notin> set allToolNames
      then flatten_loop rest (allTools @ [tool]) (allToolNames @ [ActionInput.name tool])
      else flatten_loop rest allTools allToolNames)"

definition flattenToolCallsNoDuplicates :: "ActionInput list \<Rightarrow> ActionInput list" where
  "flattenToolCallsNoDuplicates toolsByPriority = flatten_loop toolsByPriority [] []"

text \<open>Proof device: the entries of a list whose name is new with respect to a set of seen names.\<close>

fun first_by_name :: "string set \<Rightarrow> ActionInput list \<Rightarrow> ActionInput list" where
  "first_by_name seen [] = []"
| "first_by_name seen (t # ts) =
     (if ActionInput.name t \<in> seen then first_by_name seen ts
      else t # first_by_name (insert (ActionInput.name t) seen) ts)"

section \<open>Endpoints, agents and the external collaborators\<close>

datatype EndpointType = CopilotKit | LangGraphPlatform

type_synonym headers = "(string \<times> string) list"

record Properties =
  authorization :: "string option"
  other :: "(string \<times> json) list"

record GraphQLContext =
  properties :: Properties

text \<open>
  An endpoint definition is an untagged object: \<open>type\<close> is optional, a CopilotKit
  endpoint carries \<open>url\<close> and optionally the header hook \<open>onBeforeRequest\<close>, a
  LangGraph Platform endpoint carries \<open>deploymentUrl\<close>, \<open>langsmithApiKey\<close> and
  \<open>agents\<close>.  A property that is absent is \<open>None\<close>.
\<close>

record EndpointDefinition =
  type :: "EndpointType option"
  url :: "string option"
  onBeforeRequest :: "(GraphQLContext \<Rightarrow> error + headers) option"
  deploymentUrl :: "string option"
  langsmithApiKey :: "string option"
  agents :: "string list option"

record Agent =
  name :: string
  id' :: string
  description :: string
  endpoint :: EndpointDefinition

text \<open>
  An entry of the \<open>agents\<close> array of an \<open>/info\<close> response.  The source types it as
  \<open>{name: string; description: string}\<close> and reads \<open>description\<close> through \<open>??\<close>;
  \<open>extra\<close> holds every other property the endpoint's JSON carries for the entry.
\<close>

record InfoAgent =
  name :: string
  description :: "string option"
  extra :: "(string \<times> json) list"

record InfoResponse =
  agents :: "InfoAgent list option"

record Assistant =
  assistant_id :: string
  graph_id :: string

record LangGraphClient =
  apiUrl :: "string option"
  apiKey :: "string option"
  defaultHeaders :: headers

text \<open>The body of a successful \<open>/agents/state\<close> response, before re-serialisation.\<close>

record AgentStateData =
  threadId :: string
  threadExists :: bool
  state :: json
  messages :: json

record LoadAgentStateResponse =
  threadId :: string
  threadExists :: bool
  state :: string
  messages :: string

text \<open>
  What \<open>await fetch(...)\<close> followed by \<open>await response.json()\<close> gives: the call throws,
  or it returns a response with a status whose body parses (or fails to parse) to the type
  the source annotates.
\<close>

record 'b Response =
  status :: nat
  json :: "error + 'b"

datatype 'b fetch_result = FetchThrows error | FetchReturns "'b Response"

definition ok :: "'b Response \<Rightarrow> bool" where
  "ok response = (200 \<le> status response \<and> status response \<le> 299)"

text \<open>What \<open>client.threads.getState\<close> resolves to: an object whose \<open>values\<close> may be absent.\<close>

record ThreadState =
  values' :: "(string \<times> json) list option"

text \<open>
  The collaborators outside this file, as parameters: the global \<open>fetch\<close> on the two
  routes (request URL, headers and body given), the platform SDK's two operations,
  \<open>createHeaders\<close>, \<open>randomId\<close> (the \<open>n\<close>-th identifier drawn), the message conversion
  of a thread state, and the constructors of the error classes of the shared package:
  the message \<open>new CopilotKitApiDiscoveryError({url})\<close> builds, the message
  \<open>new CopilotKitLowLevelError({error, url})\<close> builds, and the value that
  \<open>throw new ResolvedCopilotKitError({status, url, isRemoteEndpoint})\<close> throws (the object
  constructed, or what the constructor itself throws).
\<close>

record world =
  fetch_info :: "string \<Rightarrow> headers \<Rightarrow> string \<Rightarrow> InfoResponse option fetch_result"
  fetch_state :: "string \<Rightarrow> headers \<Rightarrow> string \<Rightarrow> AgentStateData fetch_result"
  createHeaders :: "(GraphQLContext \<Rightarrow> error + headers) option \<Rightarrow> GraphQLContext \<Rightarrow> error + headers"
  assistants_search :: "LangGraphClient \<Rightarrow> error + Assistant list option"
  threads_getState :: "LangGraphClient \<Rightarrow> string \<Rightarrow> error + ThreadState"
  randomId :: "nat \<Rightarrow> string"
  langchainMessagesToCopilotKit :: "json option \<Rightarrow> error + json"
  apiDiscoveryMessage :: "string \<Rightarrow> string"
  lowLevelMessage :: "error \<Rightarrow> string \<Rightarrow> string"
  newResolvedCopilotKitError :: "nat \<Rightarrow> string \<Rightarrow> bool \<Rightarrow> error"

definition properties_json :: "Properties \<Rightarrow> json" where
  "properties_json p =
     JObj ((case authorization p of None \<Rightarrow> [] | Some a \<Rightarrow> [(''authorization'', JStr a)]) @ other p)"

text \<open>
  \<open>graphqlContext.properties.authorization ? {authorization: `Bearer ...`} : null\<close>, spread
  into \<open>defaultHeaders\<close>: the empty string is falsy, spreading \<open>null\<close> adds nothing.
\<close>

definition propertyHeaders :: "GraphQLContext \<Rightarrow> headers" where
  "propertyHeaders graphqlContext =
     (case authorization (properties graphqlContext) of
        None \<Rightarrow> []
      | Some a \<Rightarrow> if a = [] then [] else [(''authorization'', ''Bearer '' @ a)])"

definition newLangGraphClient :: "EndpointDefinition \<Rightarrow> GraphQLContext \<Rightarrow> LangGraphClient" where
  "newLangGraphClient ep graphqlContext =
     \<lparr>apiUrl = deploymentUrl ep, apiKey = langsmithApiKey ep,
      defaultHeaders = propertyHeaders graphqlContext\<rparr>"

text \<open>A template literal prints an absent property as \<open>undefined\<close>.\<close>

definition template :: "string option \<Rightarrow> string" where
  "template s = (case s of None \<Rightarrow> ''undefined'' | Some v \<Rightarrow> v)"

section \<open>Agent discovery\<close>

text \<open>
  The \<open>map\<close> over the entries of an \<open>/info\<close> response; \<open>randomId()\<close> is called once per
  entry, so the counter of identifiers drawn so far is threaded through.
\<close>

fun infoAgents :: "world \<Rightarrow> EndpointDefinition \<Rightarrow> InfoAgent list \<Rightarrow> nat \<Rightarrow> Agent list \<times> nat" where
  "infoAgents w ep [] n = ([], n)"
| "infoAgents w ep (agent # rest) n =
     (let a = \<lparr>Agent.name = InfoAgent.name agent,
               id' = randomId w n,
               description = (case InfoAgent.description agent of None \<Rightarrow> '''' | Some d \<Rightarrow> d),
               endpoint = ep\<rparr>;
          (as, n') = infoAgents w ep rest (Suc n)
      in (a # as, n'))"

definition platformAgents :: "EndpointDefinition \<Rightarrow> Assistant list \<Rightarrow> Agent list" where
  "platformAgents ep data =
     map (\<lambda>entry. \<lparr>Agent.name = graph_id entry, id' = assistant_id entry,
                   description = '''', endpoint = ep\<rparr>) data"

text \<open>The body of the \<open>try\<close> block for a CopilotKit endpoint.\<close>

definition info_try :: "world \<Rightarrow> GraphQLContext \<Rightarrow> EndpointDefinition \<Rightarrow> string \<Rightarrow> nat
    \<Rightarrow> (error + Agent list) \<times> nat" where
  "info_try w graphqlContext ep fetchUrl n =
     (case createHeaders w (onBeforeRequest ep) graphqlContext of
        Inl e \<Rightarrow> (Inl e, n)
      | Inr hs \<Rightarrow>
         (case fetch_info w fetchUrl hs
                 (JSON_stringify (JObj [(''properties'', properties_json (properties graphqlContext))])) of
            FetchThrows e \<Rightarrow> (Inl e, n)
          | FetchReturns response \<Rightarrow>
             if \<not> ok response then
               (if status response = 404
                then (Inl (CopilotKitApiDiscoveryError (apiDiscoveryMessage w fetchUrl)), n)
                else (Inl (newResolvedCopilotKitError w (status response) fetchUrl True), n))
             else
               (case json response of
                  Inl e \<Rightarrow> (Inl e, n)
                | Inr data \<Rightarrow>
                   (let (endpointAgents, n') =
                          infoAgents w ep
                            (case data of None \<Rightarrow> []
                             | Some d \<Rightarrow> (case InfoResponse.agents d of None \<Rightarrow> [] | Some as \<Rightarrow> as)) n
                    in (Inr endpointAgents, n')))))"

text \<open>One step of the \<open>reduce\<close>: the agents of one endpoint, or the error it throws.\<close>

definition discoverEndpoint :: "world \<Rightarrow> GraphQLContext \<Rightarrow> EndpointDefinition \<Rightarrow> nat
    \<Rightarrow> (error + Agent list) \<times> nat" where
  "discoverEndpoint w graphqlContext ep n =
     (if type ep = Some LangGraphPlatform then
        (case assistants_search w (newLangGraphClient ep graphqlContext) of
           Inl e \<Rightarrow> (Inl e, n)
         | Inr data \<Rightarrow> (Inr (platformAgents ep (case data of None \<Rightarrow> [] | Some d \<Rightarrow> d)), n))
      else
        (let fetchUrl = template (url ep) @ ''/info'' in
         case info_try w graphqlContext ep fetchUrl n of
           (Inl error, n') \<Rightarrow>
             if isCopilotKitError error then (Inl error, n')
             else (Inl (CopilotKitLowLevelError (lowLevelMessage w error fetchUrl)), n')
         | (Inr endpointAgents, n') \<Rightarrow> (Inr endpointAgents, n')))"

text \<open>
  The \<open>reduce\<close> over the endpoint definitions: each callback first awaits the accumulator,
  so an endpoint is queried only when all endpoints before it succeeded, and the first
  error is the result of the whole chain.
\<close>

fun discover_reduce :: "world \<Rightarrow> GraphQLContext \<Rightarrow> EndpointDefinition list \<Rightarrow> Agent list \<Rightarrow> nat
    \<Rightarrow> (error + Agent list) \<times> nat" where
  "discover_reduce w graphqlContext [] acc n = (Inr acc, n)"
| "discover_reduce w graphqlContext (ep # eps) acc n =
     (case discoverEndpoint w graphqlContext ep n of
        (Inl e, n') \<Rightarrow> (Inl e, n')
      | (Inr endpointAgents, n') \<Rightarrow> discover_reduce w graphqlContext eps (acc @ endpointAgents) n')"

definition discoverAgentsFromEndpoints :: "world \<Rightarrow> EndpointDefinition list \<Rightarrow> GraphQLContext \<Rightarrow> nat
    \<Rightarrow> (error + Agent list) \<times> nat" where
  "discoverAgentsFromEndpoints w remoteEndpointDefinitions graphqlContext n =
     discover_reduce w graphqlContext remoteEndpointDefinitions [] n"

section \<open>Loading an agent's state\<close>

text \<open>
  The platform branch of \<open>loadAgentState\<close>.  \<open>state\<close> starts as the empty object and is
  overwritten by the \<open>values\<close> of the thread state when the query returns; the empty
  \<open>catch\<close> keeps the empty object when it throws.  \<open>Object.keys\<close> throws a \<open>TypeError\<close>
  on absent \<open>values\<close>.  The destructuring and the conversion of the messages are outside
  any \<open>try\<close>.
\<close>

definition loadState_platform :: "world \<Rightarrow> GraphQLContext \<Rightarrow> string \<Rightarrow> EndpointDefinition
    \<Rightarrow> error + LoadAgentStateResponse" where
  "loadState_platform w graphqlContext thread_id ep =
     (let client = newLangGraphClient ep graphqlContext;
          state = (case threads_getState w client thread_id of
                     Inl error \<Rightarrow> Some []
                   | Inr threadState \<Rightarrow> ThreadState.values' threadState)
      in case state of
           None \<Rightarrow> Inl (Error ''TypeError: Cannot convert undefined or null to object'')
         | Some kvs \<Rightarrow>
             if length (map fst kvs) = 0 then
               Inr \<lparr>LoadAgentStateResponse.threadId = (if thread_id = [] then '''' else thread_id),
                    threadExists = False,
                    state = JSON_stringify (JObj []),
                    messages = JSON_stringify (JArr [])\<rparr>
             else
               (let messages = map_of kvs ''messages'';
                    stateWithoutMessages = filter (\<lambda>kv. fst kv \<noteq> ''messages'') kvs
                in case langchainMessagesToCopilotKit w messages of
                     Inl e \<Rightarrow> Inl e
                   | Inr copilotkitMessages \<Rightarrow>
                       Inr \<lparr>LoadAgentStateResponse.threadId = (if thread_id = [] then '''' else thread_id),
                            threadExists = True,
                            state = JSON_stringify (JObj stateWithoutMessages),
                            messages = JSON_stringify copilotkitMessages\<rparr>))"

definition state_try :: "world \<Rightarrow> GraphQLContext \<Rightarrow> string \<Rightarrow> string \<Rightarrow> EndpointDefinition \<Rightarrow> string
    \<Rightarrow> error + LoadAgentStateResponse" where
  "state_try w graphqlContext thread_id agentName ep fetchUrl =
     (case createHeaders w (onBeforeRequest ep) graphqlContext of
        Inl e \<Rightarrow> Inl e
      | Inr hs \<Rightarrow>
         (case fetch_state w fetchUrl hs
                 (JSON_stringify (JObj [(''properties'', properties_json (properties graphqlContext)),
                                        (''threadId'', JStr thread_id), (''name'', JStr agentName)])) of
            FetchThrows e \<Rightarrow> Inl e
          | FetchReturns response \<Rightarrow>
             if \<not> ok response then
               (if status response = 404
                then Inl (CopilotKitApiDiscoveryError (apiDiscoveryMessage w fetchUrl))
                else Inl (newResolvedCopilotKitError w (status response) fetchUrl True))
             else
               (case json response of
                  Inl e \<Rightarrow> Inl e
                | Inr data \<Rightarrow>
                   Inr \<lparr>LoadAgentStateResponse.threadId = AgentStateData.threadId data,
                        threadExists = AgentStateData.threadExists data,
                        state = JSON_stringify (AgentStateData.state data),
                        messages = JSON_stringify (AgentStateData.messages data)\<rparr>)))"

definition loadAgentState :: "world \<Rightarrow> EndpointDefinition list \<Rightarrow> GraphQLContext \<Rightarrow> string \<Rightarrow> string \<Rightarrow> nat
    \<Rightarrow> (error + LoadAgentStateResponse) \<times> nat" where
  "loadAgentState w remoteEndpointDefinitions graphqlContext thread_id agentName n =
     (case discoverAgentsFromEndpoints w remoteEndpointDefinitions graphqlContext n of
        (Inl e, n') \<Rightarrow> (Inl e, n')
      | (Inr agentsWithEndpoints, n') \<Rightarrow>
         (case find (\<lambda>agent. Agent.name agent = agentName) agentsWithEndpoints of
            None \<Rightarrow> (Inl (Error ''Agent not found''), n')
          | Some agentWithEndpoint \<Rightarrow>
             (case createHeaders w None graphqlContext of
                Inl e \<Rightarrow> (Inl e, n')
              | Inr headers \<Rightarrow>
                 if type (endpoint agentWithEndpoint) = Some LangGraphPlatform then
                   (loadState_platform w graphqlContext thread_id (endpoint agentWithEndpoint), n')
                 else if type (endpoint agentWithEndpoint) = Some CopilotKit
                         \<or> type (endpoint agentWithEndpoint) = None then
                   (let cpkEndpoint = endpoint agentWithEndpoint;
                        fetchUrl = template (url cpkEndpoint) @ ''/agents/state''
                    in case state_try w graphqlContext thread_id agentName cpkEndpoint fetchUrl of
                         Inl error \<Rightarrow>
                           if isCopilotKitError error then (Inl error, n')
                           else (Inl (CopilotKitLowLevelError (lowLevelMessage w error fetchUrl)), n')
                       | Inr r \<Rightarrow> (Inr r, n'))
                 else (Inl (Error ''Unknown endpoint type''), n'))))"

section \<open>Actions, messages, hooks and the service adapter\<close>

type_synonym Message = json
type_synonym RuntimeEvent = json

text \<open>An asynchronous sequence of events: the events, then completion or an error.\<close>

type_synonym event_stream = "RuntimeEvent list \<times> error option"

text \<open>A \<open>RuntimeEventSource\<close>: empty when created, or fed by one producer.\<close>

datatype RuntimeEventSource = EventSource "event_stream option"

record MessageInput =
  textMessage :: "string option"
  agentStateMessage :: "json option"

record AgentSessionInput =
  agentName :: string
  nodeName :: "string option"
  threadId :: "string option"

record RemoteAgentHandlerParams =
  name :: string
  threadId :: "string option"
  nodeName :: "string option"
  metaEvents :: "json list option"
  actionInputsWithoutAgents :: "ActionInput list"

record Action =
  name :: string
  description :: string
  parameters :: json
  remoteAgentHandler :: "(RemoteAgentHandlerParams \<Rightarrow> error + event_stream) option"

text \<open>
  Modelled from the spec: \<open>isRemoteAgentAction\<close> (module \<open>remote-actions\<close>) is absent from
  the sources.  A remote-agent action is an action that carries the streaming handler the
  processor invokes ("invoke the agent's streaming handler").
\<close>

definition isRemoteAgentAction :: "Action \<Rightarrow> bool" where
  "isRemoteAgentAction action = (case remoteAgentHandler action of None \<Rightarrow> False | Some h \<Rightarrow> True)"

record OnBeforeRequestOptions =
  threadId :: "string option"
  runId :: "string option"
  inputMessages :: "Message list"
  properties :: Properties
  url :: "string option"

text \<open>
  \<open>threadId\<close> is declared a string; the agent path passes the resolved thread id, which is
  absent when neither the request nor the session has one.
\<close>

record OnAfterRequestOptions =
  threadId :: "string option"
  runId :: "string option"
  inputMessages :: "Message list"
  outputMessages :: "Message list"
  properties :: Properties
  url :: "string option"

text \<open>A promise, as seen by the code that attaches handlers to it.\<close>

datatype 'a promise = Pending | Fulfilled 'a | Rejected error

text \<open>
  A handler of type \<open>void | Promise<void>\<close>: the call throws, returns nothing, or returns a
  promise.  The before-hook is awaited, so it is given by its settled outcome (it throws or
  rejects, or it completes), as every awaited call of a collaborator is; the after-hook is
  called without \<open>await\<close>, so what it returns is kept apart.
\<close>

datatype hook_return = ReturnsVoid | ReturnsPromise "unit promise"

type_synonym OnBeforeRequestHandler = "OnBeforeRequestOptions \<Rightarrow> error + unit"
type_synonym OnAfterRequestHandler = "OnAfterRequestOptions \<Rightarrow> error + hook_return"

record Middleware =
  onBeforeRequest :: "OnBeforeRequestHandler option"
  onAfterRequest :: "OnAfterRequestHandler option"

record ProcessRequest =
  messages :: "Message list"
  actions :: "ActionInput list"
  threadId :: "string option"
  runId :: "string option"
  eventSource :: RuntimeEventSource
  forwardedParameters :: "json option"
  extensions :: "json option"
  agentSession :: "AgentSessionInput option"
  agentStates :: "json list option"

record ProcessResponse =
  threadId :: string
  runId :: "string option"
  extensions :: "json option"

text \<open>
  A service adapter is the \<open>EmptyAdapter\<close> or an adapter with a \<open>process\<close> method; the
  method throws, or returns its response together with the event source it was handed,
  as it has fed it.
\<close>

datatype CopilotServiceAdapter =
    EmptyAdapter
  | Adapter "ProcessRequest \<Rightarrow> error + (ProcessResponse \<times> RuntimeEventSource)"

record CopilotRuntimeRequest =
  serviceAdapter :: CopilotServiceAdapter
  messages :: "MessageInput list"
  actions :: "ActionInput list"
  agentSession :: "AgentSessionInput option"
  agentStates :: "json list option"
  outputMessagesPromise :: "Message list promise"
  threadId :: "string option"
  runId :: "string option"
  publicApiKey :: "string option"
  graphqlContext :: GraphQLContext
  forwardedParameters :: "json option"
  url :: "string option"
  extensions :: "json option"
  metaEvents :: "json list option"

text \<open>
  \<open>threadId\<close> is declared a string; the agent path returns the resolved thread id, which
  is absent when neither the request nor the session has one.
\<close>

record CopilotRuntimeResponse =
  threadId :: "string option"
  runId :: "string option"
  eventSource :: RuntimeEventSource
  serverSideActions :: "Action list"
  actionInputsWithoutAgents :: "ActionInput list"
  extensions :: "json option"

datatype ActionsConfiguration =
    ActionList "Action list"
  | ActionFunction "Properties \<Rightarrow> string option \<Rightarrow> error + Action list"

type_synonym RemoteChainParameters = json

record CopilotRuntimeConstructorParams =
  middleware :: "Middleware option"
  actions :: "ActionsConfiguration option"
  remoteActions :: "EndpointDefinition list option"
  remoteEndpoints :: "EndpointDefinition list option"
  langserve :: "RemoteChainParameters list option"
  delegateAgentProcessingToServiceAdapter :: "bool option"

text \<open>
  The runtime object.  \<open>langserve\<close> holds the promises made at construction, each by its
  outcome.
\<close>

record CopilotRuntime =
  actions :: ActionsConfiguration
  remoteEndpointDefinitions :: "EndpointDefinition list"
  langserve :: "(error + Action) list"
  onBeforeRequest :: "OnBeforeRequestHandler option"
  onAfterRequest :: "OnAfterRequestHandler option"
  delegateAgentProcessingToServiceAdapter :: bool

text \<open>
  The collaborators of the request processor:
  \<open>setupRemoteActions\<close> (resolved endpoint definitions, context, input messages, agent
  states, frontend URL), \<open>convertGqlInputToMessages\<close>, \<open>actionParametersToJsonSchema\<close>
  and \<open>new RemoteChain(chain).toAction()\<close>.
\<close>

record runtime_world =
  setupRemoteActions :: "EndpointDefinition list \<Rightarrow> GraphQLContext \<Rightarrow> Message list
      \<Rightarrow> json list option \<Rightarrow> string option \<Rightarrow> error + Action list"
  convertGqlInputToMessages :: "MessageInput list \<Rightarrow> Message list"
  actionParametersToJsonSchema :: "json \<Rightarrow> json"
  toAction :: "RemoteChainParameters \<Rightarrow> error + Action"

text \<open>What the processor does to the outside, in the order it does it.\<close>

datatype effect =
    ConsoleWarn
  | ConsoleError
  | SetupRemoteActions
  | BeforeRequestHook OnBeforeRequestOptions
  | AdapterProcess ProcessRequest
  | RemoteAgentHandlerCall RemoteAgentHandlerParams
  | SendErrorMessageToChat

section \<open>Construction and endpoint types\<close>

definition copilotKitEndpoint :: "EndpointDefinition \<Rightarrow> EndpointDefinition" where
  "copilotKitEndpoint config = config\<lparr>type := Some CopilotKit\<rparr>"

definition langGraphPlatformEndpoint :: "EndpointDefinition \<Rightarrow> EndpointDefinition" where
  "langGraphPlatformEndpoint config = config\<lparr>type := Some LangGraphPlatform\<rparr>"

definition resolveEndpointType :: "EndpointDefinition \<Rightarrow> EndpointType" where
  "resolveEndpointType ep =
     (case type ep of
        None \<Rightarrow>
          if deploymentUrl ep \<noteq> None \<and> EndpointDefinition.agents ep \<noteq> None
          then LangGraphPlatform else CopilotKit
      | Some t \<Rightarrow> t)"

text \<open>
  The constructor.  An array and a function are both truthy, so \<open>params?.actions &&
  params?.remoteEndpoints\<close> holds exactly when both properties are given.
\<close>

definition constructor :: "runtime_world \<Rightarrow> CopilotRuntimeConstructorParams option
    \<Rightarrow> effect list \<times> CopilotRuntime" where
  "constructor w params =
     (let p_actions = (case params of None \<Rightarrow> None | Some p \<Rightarrow> CopilotRuntimeConstructorParams.actions p);
          p_remoteEndpoints = (case params of None \<Rightarrow> None | Some p \<Rightarrow> remoteEndpoints p);
          p_remoteActions = (case params of None \<Rightarrow> None | Some p \<Rightarrow> remoteActions p);
          p_langserve = (case params of None \<Rightarrow> None | Some p \<Rightarrow> CopilotRuntimeConstructorParams.langserve p);
          p_middleware = (case params of None \<Rightarrow> None | Some p \<Rightarrow> middleware p);
          p_delegate = (case params of None \<Rightarrow> None
                        | Some p \<Rightarrow> CopilotRuntimeConstructorParams.delegateAgentProcessingToServiceAdapter p);
          ignored = (p_actions \<noteq> None \<and> p_remoteEndpoints \<noteq> None)
      in (if ignored then [ConsoleWarn] else [],
          \<lparr>CopilotRuntime.actions =
              (if ignored then ActionList []
               else (case p_actions of None \<Rightarrow> ActionList [] | Some a \<Rightarrow> a)),
           remoteEndpointDefinitions =
              (case p_remoteEndpoints of
                 Some eps \<Rightarrow> eps
               | None \<Rightarrow> (case p_remoteActions of Some eps \<Rightarrow> eps | None \<Rightarrow> [])),
           langserve = map (toAction w) (case p_langserve of None \<Rightarrow> [] | Some cs \<Rightarrow> cs),
           onBeforeRequest = (case p_middleware of None \<Rightarrow> None | Some m \<Rightarrow> Middleware.onBeforeRequest m),
           onAfterRequest = (case p_middleware of None \<Rightarrow> None | Some m \<Rightarrow> Middleware.onAfterRequest m),
           delegateAgentProcessingToServiceAdapter =
              (case p_delegate of None \<Rightarrow> False | Some b \<Rightarrow> b)\<rparr>))"

section \<open>The detached after-hook\<close>

text \<open>
  \<open>p.then(f)\<close> and \<open>p.catch(h)\<close> for callbacks that return a plain value or throw: the
  promise each of them returns.
\<close>

definition promise_then :: "'a promise \<Rightarrow> ('a \<Rightarrow> error + 'b) \<Rightarrow> 'b promise" where
  "promise_then p f =
     (case p of
        Pending \<Rightarrow> Pending
      | Rejected e \<Rightarrow> Rejected e
      | Fulfilled v \<Rightarrow> (case f v of Inl e \<Rightarrow> Rejected e | Inr r \<Rightarrow> Fulfilled r))"

definition promise_catch :: "'a promise \<Rightarrow> (error \<Rightarrow> error + 'a) \<Rightarrow> 'a promise" where
  "promise_catch p h =
     (case p of
        Pending \<Rightarrow> Pending
      | Fulfilled v \<Rightarrow> Fulfilled v
      | Rejected e \<Rightarrow> (case h e of Inl e' \<Rightarrow> Rejected e' | Inr r \<Rightarrow> Fulfilled r))"

text \<open>
  The arrow function passed to \<open>then\<close>: a block whose only statement is the optional call
  of the hook.  A throw of the hook leaves the block; the value the hook returns is not
  returned by the block.
\<close>

definition afterRequest_callback :: "OnAfterRequestHandler option \<Rightarrow> OnAfterRequestOptions \<Rightarrow> error + unit" where
  "afterRequest_callback hook opts =
     (case hook of
        None \<Rightarrow> Inr ()
      | Some h \<Rightarrow> (case h opts of Inl e \<Rightarrow> Inl e | Inr returned \<Rightarrow> Inr ()))"

text \<open>
  What the processor leaves behind when it returns: the calls of the after-hook, the promise
  at the end of the \<open>then\<close>/\<open>catch\<close> chain, and the promises the hook returned, to which
  the chain attaches no handler.
\<close>

record after_task =
  invoked :: "OnAfterRequestOptions list"
  chain :: "unit promise"
  dropped :: "unit promise list"

definition scheduleAfterRequest :: "OnAfterRequestHandler option \<Rightarrow> Message list promise
    \<Rightarrow> (Message list \<Rightarrow> OnAfterRequestOptions) \<Rightarrow> after_task" where
  "scheduleAfterRequest hook outputPromise options =
     \<lparr>invoked =
        (case outputPromise of
           Fulfilled out \<Rightarrow> (case hook of None \<Rightarrow> [] | Some h \<Rightarrow> [options out])
         | _ \<Rightarrow> []),
      chain =
        promise_catch
          (promise_then outputPromise
             (\<lambda>outputMessages. afterRequest_callback hook (options outputMessages)))
          (\<lambda>error. Inr ()),
      dropped =
        (case outputPromise of
           Fulfilled out \<Rightarrow>
             (case hook of
                None \<Rightarrow> []
              | Some h \<Rightarrow> (case h (options out) of Inr (ReturnsPromise q) \<Rightarrow> [q] | _ \<Rightarrow> []))
         | _ \<Rightarrow> [])\<rparr>"

text \<open>The rejections no handler receives: those of the promises left behind that are rejected.\<close>

definition unhandledRejections :: "after_task \<Rightarrow> error list" where
  "unhandledRejections t =
     concat (map (\<lambda>q. case q of Rejected e \<Rightarrow> [e] | _ \<Rightarrow> []) (chain t # dropped t))"

section \<open>The request processor\<close>

record turn_outcome =
  effects :: "effect list"
  result :: "error + CopilotRuntimeResponse"
  afterRequest :: "after_task option"

definition throws :: "effect list \<Rightarrow> error \<Rightarrow> turn_outcome" where
  "throws effs e = \<lparr>effects = effs, result = Inl e, afterRequest = None\<rparr>"

text \<open>The loop over \<open>this.langserve\<close>: a chain that failed to load is logged and left out.\<close>

fun langserve_loop :: "(error + Action) list \<Rightarrow> Action list \<Rightarrow> effect list \<Rightarrow> Action list \<times> effect list" where
  "langserve_loop [] langserveFunctions effs = (langserveFunctions, effs)"
| "langserve_loop (chainPromise # rest) langserveFunctions effs =
     (case chainPromise of
        Inr loaded \<Rightarrow> langserve_loop rest (langserveFunctions @ [loaded]) effs
      | Inl error \<Rightarrow> langserve_loop rest langserveFunctions (effs @ [ConsoleError]))"

definition getServerSideActions :: "runtime_world \<Rightarrow> CopilotRuntime \<Rightarrow> CopilotRuntimeRequest
    \<Rightarrow> effect list \<times> (error + Action list)" where
  "getServerSideActions w rt request =
     (let inputMessages = convertGqlInputToMessages w (CopilotRuntimeRequest.messages request);
          (langserveFunctions, effs) = langserve_loop (CopilotRuntime.langserve rt) [] [];
          remoteEndpointDefinitions =
            map (\<lambda>endpoint. endpoint\<lparr>type := Some (resolveEndpointType endpoint)\<rparr>)
              (CopilotRuntime.remoteEndpointDefinitions rt)
      in case setupRemoteActions w remoteEndpointDefinitions (graphqlContext request) inputMessages
                (CopilotRuntimeRequest.agentStates request) (CopilotRuntimeRequest.url request) of
           Inl e \<Rightarrow> (effs @ [SetupRemoteActions], Inl e)
         | Inr remote_actions \<Rightarrow>
            (case (case CopilotRuntime.actions rt of
                     ActionFunction f \<Rightarrow>
                       f (GraphQLContext.properties (graphqlContext request)) (CopilotRuntimeRequest.url request)
                   | ActionList as \<Rightarrow> Inr as) of
               Inl e \<Rightarrow> (effs @ [SetupRemoteActions], Inl e)
             | Inr configuredActions \<Rightarrow>
                 (effs @ [SetupRemoteActions],
                  Inr (configuredActions @ langserveFunctions @ remote_actions))))"

text \<open>The object literal both paths map a server-side action to.\<close>

definition toActionInput :: "runtime_world \<Rightarrow> Action \<Rightarrow> ActionInput" where
  "toActionInput w action =
     \<lparr>ActionInput.name = Action.name action,
      description = Action.description action,
      jsonSchema = JSON_stringify (actionParametersToJsonSchema w (parameters action)),
      available = None\<rparr>"

definition callBeforeRequest :: "OnBeforeRequestHandler option \<Rightarrow> OnBeforeRequestOptions
    \<Rightarrow> effect list \<times> (error + unit)" where
  "callBeforeRequest hook opts =
     (case hook of None \<Rightarrow> ([], Inr ()) | Some h \<Rightarrow> ([BeforeRequestHook opts], h opts))"

definition processAgentRequest :: "runtime_world \<Rightarrow> CopilotRuntime \<Rightarrow> CopilotRuntimeRequest \<Rightarrow> turn_outcome" where
  "processAgentRequest w rt request =
     (case CopilotRuntimeRequest.agentSession request of
        None \<Rightarrow> throws [] (Error ''TypeError'')
      | Some session \<Rightarrow>
     (let agentName = AgentSessionInput.agentName session;
          nodeName = AgentSessionInput.nodeName session;
          threadId = (case CopilotRuntimeRequest.threadId request of
                        Some t \<Rightarrow> Some t | None \<Rightarrow> AgentSessionInput.threadId session)
      in case getServerSideActions w rt request of
           (effs, Inl e) \<Rightarrow> throws effs e
         | (effs, Inr ssa) \<Rightarrow>
     (let serverSideActions = ssa;
          messages = convertGqlInputToMessages w (CopilotRuntimeRequest.messages request)
      in case find (\<lambda>action. Action.name action = agentName \<and> isRemoteAgentAction action)
                serverSideActions of
           None \<Rightarrow> throws effs (CopilotKitAgentDiscoveryError agentName)
         | Some currentAgent \<Rightarrow>
     (let availableActionsForCurrentAgent =
            map (toActionInput w)
              (filter (\<lambda>action. \<not> isRemoteAgentAction action
                                 \<or> (isRemoteAgentAction action \<and> Action.name action \<noteq> agentName))
                 serverSideActions);
          allAvailableActions =
            flattenToolCallsNoDuplicates
              (availableActionsForCurrentAgent @ CopilotRuntimeRequest.actions request)
      in case callBeforeRequest (CopilotRuntime.onBeforeRequest rt)
                \<lparr>OnBeforeRequestOptions.threadId = threadId, runId = None,
                 inputMessages = messages,
                 properties = GraphQLContext.properties (graphqlContext request),
                 url = None\<rparr> of
           (effs', Inl e) \<Rightarrow> throws (effs @ effs') e
         | (effs', Inr u) \<Rightarrow>
     (let params = \<lparr>RemoteAgentHandlerParams.name = agentName, threadId = threadId,
                    nodeName = nodeName,
                    metaEvents = CopilotRuntimeRequest.metaEvents request,
                    actionInputsWithoutAgents = allAvailableActions\<rparr>
      in case (case remoteAgentHandler currentAgent of
                 None \<Rightarrow> Inl (Error ''TypeError'')
               | Some handler \<Rightarrow> handler params) of
           Inl error \<Rightarrow> throws (effs @ effs' @ [RemoteAgentHandlerCall params, ConsoleError]) error
         | Inr stream \<Rightarrow>
             \<lparr>effects = effs @ effs' @ [RemoteAgentHandlerCall params],
              result = Inr \<lparr>CopilotRuntimeResponse.threadId = threadId,
                            runId = None,
                            eventSource = EventSource (Some stream),
                            serverSideActions = serverSideActions,
                            actionInputsWithoutAgents = allAvailableActions,
                            extensions = None\<rparr>,
              afterRequest = Some (scheduleAfterRequest (CopilotRuntime.onAfterRequest rt)
                 (outputMessagesPromise request)
                 (\<lambda>outputMessages.
                    \<lparr>OnAfterRequestOptions.threadId = threadId, runId = None,
                     inputMessages = messages, outputMessages = outputMessages,
                     properties = GraphQLContext.properties (graphqlContext request),
                     url = None\<rparr>))\<rparr>)))))"

text \<open>
  The \<open>catch\<close> of \<open>processRuntimeRequest\<close>: a \<open>CopilotKitError\<close> is thrown again as it
  is, any other error is logged and reported on the (local) event source first.
\<close>

definition catch_turn :: "turn_outcome \<Rightarrow> turn_outcome" where
  "catch_turn outcome =
     (case result outcome of
        Inr response \<Rightarrow> outcome
      | Inl error \<Rightarrow>
          if isCopilotKitError error then outcome
          else outcome\<lparr>effects := effects outcome @ [ConsoleError, SendErrorMessageToChat]\<rparr>)"

text \<open>The part of the \<open>try\<close> block after the two checks: direct dispatch to the adapter.\<close>

definition directDispatch :: "runtime_world \<Rightarrow> CopilotRuntime \<Rightarrow> CopilotRuntimeRequest
    \<Rightarrow> (ProcessRequest \<Rightarrow> error + (ProcessResponse \<times> RuntimeEventSource)) \<Rightarrow> turn_outcome" where
  "directDispatch w rt request process =
     (let threadId = CopilotRuntimeRequest.threadId request;
          runId = CopilotRuntimeRequest.runId request;
          url = CopilotRuntimeRequest.url request;
          eventSource = EventSource None;
          messages = filter (\<lambda>message. agentStateMessage message = None)
                       (CopilotRuntimeRequest.messages request);
          inputMessages = convertGqlInputToMessages w messages
      in case getServerSideActions w rt request of
           (effs, Inl e) \<Rightarrow> throws effs e
         | (effs, Inr ssa) \<Rightarrow>
     (let serverSideActions = ssa;
          serverSideActionsInput = map (toActionInput w) serverSideActions;
          actionInputs =
            flattenToolCallsNoDuplicates
              (serverSideActionsInput
               @ filter (\<lambda>action. available action \<noteq> Some remote)
                   (CopilotRuntimeRequest.actions request))
      in case callBeforeRequest (CopilotRuntime.onBeforeRequest rt)
                \<lparr>OnBeforeRequestOptions.threadId = threadId, runId = runId,
                 inputMessages = inputMessages,
                 properties = GraphQLContext.properties (graphqlContext request),
                 url = url\<rparr> of
           (effs', Inl e) \<Rightarrow> throws (effs @ effs') e
         | (effs', Inr u) \<Rightarrow>
     (let processRequest =
            \<lparr>ProcessRequest.messages = inputMessages, actions = actionInputs,
             threadId = threadId, runId = runId, eventSource = eventSource,
             forwardedParameters = CopilotRuntimeRequest.forwardedParameters request,
             extensions = CopilotRuntimeRequest.extensions request,
             agentSession = CopilotRuntimeRequest.agentSession request,
             agentStates = CopilotRuntimeRequest.agentStates request\<rparr>
      in case process processRequest of
           Inl e \<Rightarrow> throws (effs @ effs' @ [AdapterProcess processRequest]) e
         | Inr (res, fedEventSource) \<Rightarrow>
     (let result = res;
          nonEmptyThreadId = (case threadId of Some t \<Rightarrow> t | None \<Rightarrow> ProcessResponse.threadId result)
      in \<lparr>effects = effs @ effs' @ [AdapterProcess processRequest],
          result = Inr \<lparr>CopilotRuntimeResponse.threadId = Some nonEmptyThreadId,
                        runId = ProcessResponse.runId result,
                        eventSource = fedEventSource,
                        serverSideActions = serverSideActions,
                        actionInputsWithoutAgents =
                          filter (\<lambda>action.
                                    find (\<lambda>serverSideAction.
                                            Action.name serverSideAction = ActionInput.name action)
                                      serverSideActions = None)
                            actionInputs,
                        extensions = ProcessResponse.extensions result\<rparr>,
          afterRequest = Some (scheduleAfterRequest (CopilotRuntime.onAfterRequest rt)
             (outputMessagesPromise request)
             (\<lambda>outputMessages.
                \<lparr>OnAfterRequestOptions.threadId = Some nonEmptyThreadId,
                 runId = ProcessResponse.runId result,
                 inputMessages = inputMessages, outputMessages = outputMessages,
                 properties = GraphQLContext.properties (graphqlContext request),
                 url = url\<rparr>))\<rparr>))))"

definition processRuntimeRequest :: "runtime_world \<Rightarrow> CopilotRuntime \<Rightarrow> CopilotRuntimeRequest \<Rightarrow> turn_outcome" where
  "processRuntimeRequest w rt request =
     catch_turn
       (if CopilotRuntimeRequest.agentSession request \<noteq> None
           \<and> \<not> CopilotRuntime.delegateAgentProcessingToServiceAdapter rt
        then processAgentRequest w rt request
        else (case serviceAdapter request of
                EmptyAdapter \<Rightarrow>
                  throws [] (CopilotKitMisuseError
                    (''Invalid adapter configuration: EmptyAdapter is only meant to be used with agent lock mode. ''
                     @ [CHR 0x0A]
                     @ ''For non-agent components like useCopilotChatSuggestions, CopilotTextarea, or CopilotTask, ''
                     @ [CHR 0x0A]
                     @ ''please use an LLM adapter instead.''))
              | Adapter process \<Rightarrow> directDispatch w rt request process))"

section \<open>Sample configurations\<close>

text \<open>
  Concrete collaborators, endpoints, actions and requests, on which the model is evaluated.
  The sample world answers every \<open>/info\<close> request with \<open>info\<close> and every thread-state
  query with \<open>thread_state\<close> (the \<open>values\<close> of the thread, or the error thrown); the
  sample collaborators of the processor resolve the remote actions to \<open>remote_actions\<close>.
  Its stand-ins follow the packages they stand for.  The message conversion throws on
  absent messages, which it cannot iterate, and gives the empty list otherwise: the
  messages of the sample thread states have no \<open>type\<close>, and the conversion drops such
  entries.  Constructing a \<open>ResolvedCopilotKitError\<close> throws a discovery error for the
  statuses 400 and 404 and gives the object for every other status.  The two messages name
  the URL they are built from.
\<close>

definition sample_world :: "InfoResponse option fetch_result \<Rightarrow> error + (string \<times> json) list \<Rightarrow> world" where
  "sample_world info thread_state =
     \<lparr>fetch_info = (\<lambda>u hs body. info),
      fetch_state = (\<lambda>u hs body. FetchThrows (Error ''fetch failed'')),
      createHeaders = (\<lambda>hook ctx. case hook of
                         None \<Rightarrow> Inr [(''Content-Type'', ''application/json'')]
                       | Some h \<Rightarrow> h ctx),
      assistants_search = (\<lambda>client. Inr (Some [\<lparr>assistant_id = ''asst-1'', graph_id = ''researcher''\<rparr>])),
      threads_getState = (\<lambda>client t. case thread_state of
                            Inl e \<Rightarrow> Inl e
                          | Inr kvs \<Rightarrow> Inr \<lparr>values' = Some kvs\<rparr>),
      randomId = (\<lambda>n. ''ck-'' @ digits n),
      langchainMessagesToCopilotKit =
        (\<lambda>m. case m of
               None \<Rightarrow> Inl (Error ''TypeError: messages is not iterable'')
             | Some j \<Rightarrow> Inr (JArr [])),
      apiDiscoveryMessage = (\<lambda>u. ''Failed to find CopilotKit API endpoint at url '' @ u),
      lowLevelMessage = (\<lambda>e u. ''Failed to fetch from url '' @ u),
      newResolvedCopilotKitError =
        (\<lambda>code u isRemoteEndpoint.
           if code = 400
             then CopilotKitApiDiscoveryError (''Failed to find CopilotKit API endpoint at url '' @ u)
           else if code = 404
             then (if isRemoteEndpoint
                   then CopilotKitRemoteEndpointDiscoveryError
                          (''Failed to find or contact remote endpoint at url '' @ u)
                   else CopilotKitApiDiscoveryError
                          (''Failed to find CopilotKit API endpoint at url '' @ u))
           else ResolvedCopilotKitError)\<rparr>"

definition sample_collaborators :: "Action list \<Rightarrow> runtime_world" where
  "sample_collaborators remote_actions =
     \<lparr>setupRemoteActions = (\<lambda>eps ctx ms states frontendUrl. Inr remote_actions),
      convertGqlInputToMessages =
        map (\<lambda>m. JStr (case textMessage m of None \<Rightarrow> '''' | Some t \<Rightarrow> t)),
      actionParametersToJsonSchema = (\<lambda>ps. ps),
      toAction = (\<lambda>c. Inl (Error ''chain not reachable''))\<rparr>"

definition sample_context :: GraphQLContext where
  "sample_context = \<lparr>GraphQLContext.properties = \<lparr>authorization = None, other = []\<rparr>\<rparr>"

definition direct_endpoint :: EndpointDefinition where
  "direct_endpoint =
     \<lparr>type = None, url = Some ''http://agents.local'', onBeforeRequest = None,
      deploymentUrl = None, langsmithApiKey = None, agents = None\<rparr>"

definition platform_endpoint :: EndpointDefinition where
  "platform_endpoint =
     \<lparr>type = Some LangGraphPlatform, url = None, onBeforeRequest = None,
      deploymentUrl = Some ''http://platform.local'', langsmithApiKey = None,
      agents = Some [''researcher'']\<rparr>"

text \<open>An \<open>/info\<close> response whose only agent entry supplies an \<open>id\<close> of its own.\<close>

definition info_with_id :: "InfoResponse option fetch_result" where
  "info_with_id =
     FetchReturns \<lparr>status = 200,
       json = Inr (Some \<lparr>InfoResponse.agents = Some [\<lparr>InfoAgent.name = ''planner'', description = Some ''plans'',
                                           extra = [(''id'', JStr ''srv-1'')]\<rparr>]\<rparr>)\<rparr>"

definition info_status :: "nat \<Rightarrow> InfoResponse option fetch_result" where
  "info_status code = FetchReturns \<lparr>status = code, json = Inr None\<rparr>"

definition agent_A :: Action where
  "agent_A = \<lparr>Action.name = ''A'', description = ''the agent'', parameters = JArr [],
              remoteAgentHandler = Some (\<lambda>params. Inr ([], None))\<rparr>"

definition client_A :: ActionInput where
  "client_A = \<lparr>ActionInput.name = ''A'', description = ''declared by the client'',
               jsonSchema = ''{}'', available = None\<rparr>"

definition client_B :: ActionInput where
  "client_B = \<lparr>ActionInput.name = ''B'', description = ''declared by the client'',
               jsonSchema = ''{}'', available = None\<rparr>"

definition sample_adapter :: CopilotServiceAdapter where
  "sample_adapter =
     Adapter (\<lambda>r. Inr (\<lparr>ProcessResponse.threadId = ''backend-thread'', runId = Some ''run-1'',
                          extensions = None\<rparr>, EventSource (Some ([], None))))"

definition sample_request :: "CopilotServiceAdapter \<Rightarrow> AgentSessionInput option \<Rightarrow> string option
    \<Rightarrow> ActionInput list \<Rightarrow> Message list promise \<Rightarrow> CopilotRuntimeRequest" where
  "sample_request adapter session tid client_actions output =
     \<lparr>serviceAdapter = adapter, messages = [], actions = client_actions,
      agentSession = session, agentStates = None, outputMessagesPromise = output,
      threadId = tid, runId = None, publicApiKey = None, graphqlContext = sample_context,
      forwardedParameters = None, url = None, extensions = None, metaEvents = None\<rparr>"

definition sample_runtime :: "bool \<Rightarrow> OnAfterRequestHandler option \<Rightarrow> CopilotRuntime" where
  "sample_runtime delegate after_hook =
     \<lparr>CopilotRuntime.actions = ActionList [], remoteEndpointDefinitions = [], langserve = [],
      onBeforeRequest = None, onAfterRequest = after_hook,
      delegateAgentProcessingToServiceAdapter = delegate\<rparr>"

definition session_A :: AgentSessionInput where
  "session_A = \<lparr>agentName = ''A'', nodeName = None, threadId = Some ''session-thread''\<rparr>"

definition static_action :: Action where
  "static_action = \<lparr>Action.name = ''static'', description = ''configured on the runtime'',
                    parameters = JArr [], remoteAgentHandler = None\<rparr>"

definition sample_params :: CopilotRuntimeConstructorParams where
  "sample_params =
     \<lparr>middleware = None, actions = Some (ActionList [static_action]), remoteActions = None,
      remoteEndpoints = Some [direct_endpoint], langserve = None,
      delegateAgentProcessingToServiceAdapter = None\<rparr>"

text \<open>An after-hook written as an \<open>async\<close> function that throws: it returns a rejected promise.\<close>

definition rejecting_after_hook :: OnAfterRequestHandler where
  "rejecting_after_hook = (\<lambda>opts. Inr (ReturnsPromise (Rejected (Error ''after-hook failed''))))"

section \<open>The deduplicator keeps the first occurrence of every name\<close>

lemma flatten_loop_first_by_name:
  "flatten_loop ts acc ns = acc @ first_by_name (set ns) ts"
  by (induction ts arbitrary: acc ns) simp_all

lemma flatten_first_by_name:
  "flattenToolCallsNoDuplicates ts = first_by_name {} ts"
  by (simp add: flattenToolCallsNoDuplicates_def flatten_loop_first_by_name)

lemma first_by_name_names:
  "set (map ActionInput.name (first_by_name seen ts)) = set (map ActionInput.name ts) - seen"
  by (induction ts arbitrary: seen) auto

lemma first_by_name_distinct:
  "distinct (map ActionInput.name (first_by_name seen ts))"
proof (induction ts arbitrary: seen)
  case Nil
  show ?case by simp
next
  case (Cons t ts)
  have "ActionInput.name t \<notin> set (map ActionInput.name (first_by_name (insert (ActionInput.name t) seen) ts))"
    unfolding first_by_name_names by simp
  with Cons show ?case by simp
qed

lemma first_by_name_subseq: "subseq (first_by_name seen ts) ts"
  by (induction ts arbitrary: seen) auto

lemma first_by_name_find:
  "t \<in> set (first_by_name seen ts) \<Longrightarrow>
     find (\<lambda>u. ActionInput.name u = ActionInput.name t) ts = Some t"
proof (induction ts arbitrary: seen)
  case Nil
  then show ?case by simp
next
  case (Cons u ts)
  show ?case
  proof (cases "ActionInput.name u \<in> seen")
    case True
    with Cons.prems have mem: "t \<in> set (first_by_name seen ts)" by simp
    then have "ActionInput.name t \<in> set (map ActionInput.name (first_by_name seen ts))"
      by (simp only: set_map) (rule imageI)
    then have "ActionInput.name t \<notin> seen" unfolding first_by_name_names by simp
    with True have "ActionInput.name u \<noteq> ActionInput.name t" by auto
    with Cons.IH [OF mem] show ?thesis by simp
  next
    case False
    with Cons.prems have "t = u \<or> t \<in> set (first_by_name (insert (ActionInput.name u) seen) ts)"
      by auto
    then show ?thesis
    proof
      assume "t = u"
      then show ?thesis by simp
    next
      assume mem: "t \<in> set (first_by_name (insert (ActionInput.name u) seen) ts)"
      then have "ActionInput.name t \<in> set (map ActionInput.name (first_by_name (insert (ActionInput.name u) seen) ts))"
        by (simp only: set_map) (rule imageI)
      then have "ActionInput.name u \<noteq> ActionInput.name t" unfolding first_by_name_names by auto
      with Cons.IH [OF mem] show ?thesis by simp
    qed
  qed
qed

text \<open>
  Claim C1.  For every ordered list of action inputs, the result of
  \<open>flattenToolCallsNoDuplicates\<close> holds every name of the input exactly once (the names
  of the result are pairwise distinct and are exactly the names of the input), every
  retained entry is the first entry of the input with its name, and the result is a
  subsequence of the input, so retained entries keep their input order.  The function is
  a function of its argument alone: it builds a new list and leaves the input as it is.
\<close>

theorem flattenToolCallsNoDuplicates_first_occurrence:
  "distinct (map ActionInput.name (flattenToolCallsNoDuplicates ts))
   \<and> set (map ActionInput.name (flattenToolCallsNoDuplicates ts)) = set (map ActionInput.name ts)
   \<and> (\<forall>t \<in> set (flattenToolCallsNoDuplicates ts).
         find (\<lambda>u. ActionInput.name u = ActionInput.name t) ts = Some t)
   \<and> subseq (flattenToolCallsNoDuplicates ts) ts"
  unfolding flatten_first_by_name
  using first_by_name_distinct [of "{}" ts] first_by_name_names [of "{}" ts]
    first_by_name_subseq [of "{}" ts] first_by_name_find [of _ "{}" ts]
  by simp

theorem flattenToolCallsNoDuplicates_first_occurrence_witness:
  "client_A \<in> set (flattenToolCallsNoDuplicates [client_A, client_B, client_A\<lparr>ActionInput.description := ''again''\<rparr>])
   \<and> find (\<lambda>u. ActionInput.name u = ActionInput.name client_A)
         [client_A, client_B, client_A\<lparr>ActionInput.description := ''again''\<rparr>] = Some client_A
   \<and> flattenToolCallsNoDuplicates [client_A, client_B, client_A\<lparr>ActionInput.description := ''again''\<rparr>]
       = [client_A, client_B]"
  using flattenToolCallsNoDuplicates_first_occurrence
    [of "[client_A, client_B, client_A\<lparr>ActionInput.description := ''again''\<rparr>]"]
  by (simp add: flattenToolCallsNoDuplicates_def client_A_def client_B_def)

section \<open>Effects of the building blocks of a turn\<close>

lemma langserve_loop_eq:
  "langserve_loop cs fs effs =
     (fs @ map projr (filter (\<lambda>c. \<not> isl c) cs), effs @ map (\<lambda>c. ConsoleError) (filter isl cs))"
  by (induction cs arbitrary: fs effs) (simp_all split: sum.splits)

lemma getServerSideActions_effects:
  "getServerSideActions w rt request = (effs, r) \<Longrightarrow> set effs \<subseteq> {ConsoleError, SetupRemoteActions}"
  by (auto simp add: getServerSideActions_def langserve_loop_eq Let_def
      split: sum.splits ActionsConfiguration.splits)

lemma callBeforeRequest_effects:
  "callBeforeRequest hook opts = (effs, r) \<Longrightarrow> set effs \<subseteq> {BeforeRequestHook opts}"
  by (auto simp add: callBeforeRequest_def split: option.splits)


lemma catch_turn_afterRequest: "afterRequest (catch_turn outcome) = afterRequest outcome"
  by (simp add: catch_turn_def split: sum.splits)

lemma catch_turn_CopilotKitError:
  "result outcome = Inl e \<Longrightarrow> isCopilotKitError e \<Longrightarrow> catch_turn outcome = outcome"
  by (simp add: catch_turn_def)


section \<open>Misuse of the empty adapter\<close>

text \<open>
  Claim C7.  A turn whose service adapter is the \<open>EmptyAdapter\<close> and which is not routed
  to the agent path (no agent session, or agent processing delegated to the service
  adapter) throws the misuse error with no effect at all before it: no resolution of
  server-side actions, no call of the before-hook, no call of an adapter or of a remote
  agent handler, and no after-hook is scheduled.
\<close>

theorem empty_adapter_misuse:
  assumes "serviceAdapter request = EmptyAdapter"
    and "CopilotRuntimeRequest.agentSession request = None
         \<or> CopilotRuntime.delegateAgentProcessingToServiceAdapter rt"
  shows "\<exists>message. processRuntimeRequest w rt request =
           \<lparr>effects = [], result = Inl (CopilotKitMisuseError message), afterRequest = None\<rparr>"
  using assms by (auto simp add: processRuntimeRequest_def catch_turn_def throws_def)

theorem empty_adapter_misuse_witness:
  "serviceAdapter (sample_request EmptyAdapter None None [client_A] Pending) = EmptyAdapter
   \<and> CopilotRuntimeRequest.agentSession (sample_request EmptyAdapter None None [client_A] Pending) = None
   \<and> effects (processRuntimeRequest (sample_collaborators [agent_A]) (sample_runtime False None)
        (sample_request EmptyAdapter None None [client_A] Pending)) = []
   \<and> isl (result (processRuntimeRequest (sample_collaborators [agent_A]) (sample_runtime False None)
        (sample_request EmptyAdapter None None [client_A] Pending)))"
  using empty_adapter_misuse [of "sample_request EmptyAdapter None None [client_A] Pending"
      "sample_runtime False None" "sample_collaborators [agent_A]"]
  by (auto simp add: sample_request_def)

section \<open>Thread-id resolution in direct dispatch\<close>



lemmas processor_defs =
  processRuntimeRequest_def processAgentRequest_def directDispatch_def catch_turn_def throws_def
  getServerSideActions_def callBeforeRequest_def toActionInput_def isRemoteAgentAction_def
  flattenToolCallsNoDuplicates_def scheduleAfterRequest_def promise_then_def promise_catch_def
  afterRequest_callback_def Let_def

lemmas sample_defs =
  sample_collaborators_def sample_runtime_def sample_request_def sample_adapter_def
  sample_context_def agent_A_def client_A_def client_B_def session_A_def


section \<open>An agent session that names no remote agent\<close>

text \<open>
  Claim C4.  On the agent path, when the server-side actions resolve and none of them is
  a remote-agent action named by the session's \<open>agentName\<close>, the turn throws
  \<open>CopilotKitAgentDiscoveryError\<close> for that name, and its effects hold no call of a remote
  agent handler.  A turn with an agent session that is not delegated to the service
  adapter is such a turn: \<open>processRuntimeRequest\<close> gives the outcome of the agent path
  unchanged.
\<close>

theorem agent_not_found:
  assumes "CopilotRuntimeRequest.agentSession request = Some session"
    and "getServerSideActions w rt request = (effs, Inr ssa)"
    and "\<forall>action \<in> set ssa. \<not> (Action.name action = agentName session \<and> isRemoteAgentAction action)"
  shows "result (processAgentRequest w rt request) = Inl (CopilotKitAgentDiscoveryError (agentName session))
       \<and> (\<forall>params. RemoteAgentHandlerCall params \<notin> set (effects (processAgentRequest w rt request)))
       \<and> (\<not> CopilotRuntime.delegateAgentProcessingToServiceAdapter rt
            \<longrightarrow> processRuntimeRequest w rt request = processAgentRequest w rt request)"
proof -
  have none: "find (\<lambda>action. Action.name action = agentName session \<and> isRemoteAgentAction action) ssa = None"
    using assms(3) by (simp add: find_None_iff)
  have out: "processAgentRequest w rt request = throws effs (CopilotKitAgentDiscoveryError (agentName session))"
    using assms(1,2) none by (simp add: processAgentRequest_def)
  have "RemoteAgentHandlerCall params \<notin> set effs" for params
    using getServerSideActions_effects [OF assms(2)] by auto
  moreover have res: "result (processAgentRequest w rt request)
      = Inl (CopilotKitAgentDiscoveryError (agentName session))"
    unfolding out by (simp add: throws_def)
  moreover have "\<not> CopilotRuntime.delegateAgentProcessingToServiceAdapter rt
      \<Longrightarrow> processRuntimeRequest w rt request = processAgentRequest w rt request"
    using assms(1) catch_turn_CopilotKitError [OF res] by (simp add: processRuntimeRequest_def)
  ultimately show ?thesis
    unfolding out by (simp add: throws_def)
qed

theorem agent_not_found_witness:
  "CopilotRuntimeRequest.agentSession
      (sample_request EmptyAdapter (Some (session_A\<lparr>agentName := ''ghost''\<rparr>)) None [client_A] Pending)
     = Some (session_A\<lparr>agentName := ''ghost''\<rparr>)
   \<and> getServerSideActions (sample_collaborators [agent_A]) (sample_runtime False None)
        (sample_request EmptyAdapter (Some (session_A\<lparr>agentName := ''ghost''\<rparr>)) None [client_A] Pending)
     = ([SetupRemoteActions], Inr [agent_A])
   \<and> \<not> (Action.name agent_A = agentName (session_A\<lparr>agentName := ''ghost''\<rparr>) \<and> isRemoteAgentAction agent_A)
   \<and> result (processRuntimeRequest (sample_collaborators [agent_A]) (sample_runtime False None)
        (sample_request EmptyAdapter (Some (session_A\<lparr>agentName := ''ghost''\<rparr>)) None [client_A] Pending))
     = Inl (CopilotKitAgentDiscoveryError ''ghost'')"
proof -
  let ?s = "session_A\<lparr>agentName := ''ghost''\<rparr>"
  let ?req = "sample_request EmptyAdapter (Some ?s) None [client_A] Pending"
  let ?w = "sample_collaborators [agent_A]"
  let ?rt = "sample_runtime False None"
  have a: "CopilotRuntimeRequest.agentSession ?req = Some ?s"
    by (simp add: sample_request_def)
  have b: "getServerSideActions ?w ?rt ?req = ([SetupRemoteActions], Inr [agent_A])"
    by (simp add: getServerSideActions_def sample_collaborators_def sample_runtime_def sample_request_def Let_def)
  have c: "\<forall>action \<in> set [agent_A].
             \<not> (Action.name action = agentName ?s \<and> isRemoteAgentAction action)"
    by (simp add: agent_A_def session_A_def)
  have d: "\<not> CopilotRuntime.delegateAgentProcessingToServiceAdapter ?rt"
    by (simp add: sample_runtime_def)
  have e: "agentName ?s = ''ghost''"
    by simp
  from agent_not_found [OF a b c] d
  have "result (processRuntimeRequest ?w ?rt ?req) = Inl (CopilotKitAgentDiscoveryError ''ghost'')"
    unfolding e by simp
  with a b c show ?thesis by simp
qed

section \<open>The action set delegated to a remote agent\<close>

lemma flatten_names:
  "ActionInput.name ` set (flattenToolCallsNoDuplicates ts) = ActionInput.name ` set ts"
  using first_by_name_names [of "{}" ts] by (simp add: flatten_first_by_name)

lemma toActionInput_name: "ActionInput.name (toActionInput w action) = Action.name action"
  by (simp add: toActionInput_def)

lemma delegated_names:
  "A \<in> ActionInput.name ` set (map (toActionInput w)
         (filter (\<lambda>action. \<not> isRemoteAgentAction action
                    \<or> (isRemoteAgentAction action \<and> Action.name action \<noteq> A)) ssa) @ cs)
     \<longleftrightarrow> (\<exists>action \<in> set ssa. Action.name action = A \<and> \<not> isRemoteAgentAction action)
          \<or> (\<exists>action \<in> set cs. ActionInput.name action = A)"
proof -
  have "A \<in> Action.name ` {action \<in> set ssa. \<not> isRemoteAgentAction action
                    \<or> (isRemoteAgentAction action \<and> Action.name action \<noteq> A)}
     \<longleftrightarrow> (\<exists>action \<in> set ssa. Action.name action = A \<and> \<not> isRemoteAgentAction action)"
    by (simp add: image_iff) metis
  moreover have "A \<in> ActionInput.name ` set cs
     \<longleftrightarrow> (\<exists>action \<in> set cs. ActionInput.name action = A)"
    by (simp add: image_iff) metis
  ultimately show ?thesis
    by (simp add: image_Un image_image toActionInput_name)
qed

text \<open>
  The list the agent path passes to the handler and returns: the server-side actions
  without the remote-agent actions named by the session, mapped to action inputs, followed
  by all client-declared actions of the request, deduplicated.
\<close>

lemma processAgentRequest_delegated:
  assumes "CopilotRuntimeRequest.agentSession request = Some session"
    and "getServerSideActions w rt request = (effs, Inr ssa)"
  shows "(\<forall>params. RemoteAgentHandlerCall params \<in> set (effects (processAgentRequest w rt request))
            \<longrightarrow> RemoteAgentHandlerParams.actionInputsWithoutAgents params =
                flattenToolCallsNoDuplicates
                  (map (toActionInput w)
                     (filter (\<lambda>action. \<not> isRemoteAgentAction action
                                \<or> (isRemoteAgentAction action \<and> Action.name action \<noteq> agentName session)) ssa)
                   @ CopilotRuntimeRequest.actions request))
       \<and> (\<forall>resp. result (processAgentRequest w rt request) = Inr resp
            \<longrightarrow> CopilotRuntimeResponse.actionInputsWithoutAgents resp =
                flattenToolCallsNoDuplicates
                  (map (toActionInput w)
                     (filter (\<lambda>action. \<not> isRemoteAgentAction action
                                \<or> (isRemoteAgentAction action \<and> Action.name action \<noteq> agentName session)) ssa)
                   @ CopilotRuntimeRequest.actions request))"
proof -
  have e1: "RemoteAgentHandlerCall params \<notin> set effs" for params
    using getServerSideActions_effects [OF assms(2)] by auto
  show ?thesis
    using assms e1
    apply (simp only: processAgentRequest_def Let_def)
    apply (simp split: prod.splits sum.splits option.splits add: throws_def)
    apply (auto dest!: callBeforeRequest_effects)
    done
qed

text \<open>
  The delegated list is a sublist of what it is built from.
\<close>

lemma flatten_subset: "set (flattenToolCallsNoDuplicates ts) \<subseteq> set ts"
proof -
  have "set (first_by_name seen ts) \<subseteq> set ts" for seen
    by (induction ts arbitrary: seen) auto
  then show ?thesis by (simp add: flatten_first_by_name)
qed

text \<open>
  Claim C2, as amended.  On the agent path for the agent named \<open>A\<close> by the session, once
  the server-side actions are resolved, the list passed to the remote agent handler and
  the list returned as \<open>actionInputsWithoutAgents\<close> are one list: the deduplication of
  the server-side actions other than the remote-agent actions named \<open>A\<close>, each mapped to
  an action input, followed by all client-declared actions of the request.  Every entry
  of it therefore comes from a server-side action that is not a remote-agent action named
  \<open>A\<close>, or is a client-declared action: no entry comes from a remote-agent action named
  \<open>A\<close>.  The list holds an entry named \<open>A\<close> exactly when a server-side action named
  \<open>A\<close> that is not a remote-agent action exists or a client-declared action of the
  request is named \<open>A\<close>.
\<close>

theorem delegated_actions_exclude_own_agent:
  assumes "CopilotRuntimeRequest.agentSession request = Some session"
    and "getServerSideActions w rt request = (effs, Inr ssa)"
  shows "(\<forall>params. RemoteAgentHandlerCall params \<in> set (effects (processAgentRequest w rt request))
            \<longrightarrow> RemoteAgentHandlerParams.actionInputsWithoutAgents params =
                flattenToolCallsNoDuplicates
                  (map (toActionInput w)
                     (filter (\<lambda>action. \<not> isRemoteAgentAction action
                                \<or> (isRemoteAgentAction action \<and> Action.name action \<noteq> agentName session)) ssa)
                   @ CopilotRuntimeRequest.actions request))
       \<and> (\<forall>resp. result (processAgentRequest w rt request) = Inr resp
            \<longrightarrow> CopilotRuntimeResponse.actionInputsWithoutAgents resp =
                flattenToolCallsNoDuplicates
                  (map (toActionInput w)
                     (filter (\<lambda>action. \<not> isRemoteAgentAction action
                                \<or> (isRemoteAgentAction action \<and> Action.name action \<noteq> agentName session)) ssa)
                   @ CopilotRuntimeRequest.actions request))
       \<and> (\<forall>entry \<in> set (flattenToolCallsNoDuplicates
                  (map (toActionInput w)
                     (filter (\<lambda>action. \<not> isRemoteAgentAction action
                                \<or> (isRemoteAgentAction action \<and> Action.name action \<noteq> agentName session)) ssa)
                   @ CopilotRuntimeRequest.actions request)).
             (\<exists>action \<in> set ssa.
                 \<not> (isRemoteAgentAction action \<and> Action.name action = agentName session)
                 \<and> entry = toActionInput w action)
             \<or> entry \<in> set (CopilotRuntimeRequest.actions request))
       \<and> (agentName session
             \<in> ActionInput.name ` set (flattenToolCallsNoDuplicates
                  (map (toActionInput w)
                     (filter (\<lambda>action. \<not> isRemoteAgentAction action
                                \<or> (isRemoteAgentAction action \<and> Action.name action \<noteq> agentName session)) ssa)
                   @ CopilotRuntimeRequest.actions request))
           \<longleftrightarrow> (\<exists>action \<in> set ssa. Action.name action = agentName session
                                      \<and> \<not> isRemoteAgentAction action)
               \<or> (\<exists>action \<in> set (CopilotRuntimeRequest.actions request).
                       ActionInput.name action = agentName session))"
proof -
  let ?kept = "filter (\<lambda>action. \<not> isRemoteAgentAction action
                    \<or> (isRemoteAgentAction action \<and> Action.name action \<noteq> agentName session)) ssa"
  let ?D = "flattenToolCallsNoDuplicates
      (map (toActionInput w) ?kept @ CopilotRuntimeRequest.actions request)"
  have names: "agentName session \<in> ActionInput.name ` set ?D
      \<longleftrightarrow> (\<exists>action \<in> set ssa. Action.name action = agentName session \<and> \<not> isRemoteAgentAction action)
          \<or> (\<exists>action \<in> set (CopilotRuntimeRequest.actions request).
                  ActionInput.name action = agentName session)"
    unfolding flatten_names by (rule delegated_names)
  have origin: "(\<exists>action \<in> set ssa.
                 \<not> (isRemoteAgentAction action \<and> Action.name action = agentName session)
                 \<and> entry = toActionInput w action)
             \<or> entry \<in> set (CopilotRuntimeRequest.actions request)"
    if "entry \<in> set ?D" for entry
  proof -
    from that flatten_subset
    have "entry \<in> set (map (toActionInput w) ?kept @ CopilotRuntimeRequest.actions request)"
      by blast
    then have "entry \<in> toActionInput w ` set ?kept
        \<or> entry \<in> set (CopilotRuntimeRequest.actions request)"
      by simp
    then show ?thesis
    proof
      assume "entry \<in> toActionInput w ` set ?kept"
      then obtain action where "action \<in> set ?kept" and e: "entry = toActionInput w action"
        by blast
      then have "action \<in> set ssa"
        and "\<not> (isRemoteAgentAction action \<and> Action.name action = agentName session)"
        by auto
      with e show ?thesis by blast
    next
      assume "entry \<in> set (CopilotRuntimeRequest.actions request)"
      then show ?thesis by simp
    qed
  qed
  from processAgentRequest_delegated [OF assms] names origin
  show ?thesis by blast
qed

theorem delegated_actions_exclude_own_agent_witness:
  "RemoteAgentHandlerCall
      \<lparr>RemoteAgentHandlerParams.name = ''A'', threadId = Some ''session-thread'', nodeName = None,
       metaEvents = None, actionInputsWithoutAgents = [client_B]\<rparr>
     \<in> set (effects (processAgentRequest (sample_collaborators [agent_A]) (sample_runtime False None)
          (sample_request EmptyAdapter (Some session_A) None [client_B] Pending)))
   \<and> agentName session_A \<notin> ActionInput.name ` set [client_B]
   \<and> isRemoteAgentAction agent_A"
proof -
  let ?req = "sample_request EmptyAdapter (Some session_A) None [client_B] Pending"
  let ?w = "sample_collaborators [agent_A]"
  let ?rt = "sample_runtime False None"
  let ?params = "\<lparr>RemoteAgentHandlerParams.name = ''A'', threadId = Some ''session-thread'',
       nodeName = None, metaEvents = None, actionInputsWithoutAgents = [client_B]\<rparr>"
  have a: "CopilotRuntimeRequest.agentSession ?req = Some session_A"
    by (simp add: sample_request_def)
  have b: "getServerSideActions ?w ?rt ?req = ([SetupRemoteActions], Inr [agent_A])"
    by (simp add: getServerSideActions_def sample_collaborators_def sample_runtime_def
        sample_request_def Let_def)
  have c: "RemoteAgentHandlerCall ?params \<in> set (effects (processAgentRequest ?w ?rt ?req))"
    by (simp add: processor_defs sample_defs)
  have d: "isRemoteAgentAction agent_A"
    by (simp add: isRemoteAgentAction_def agent_A_def)
  note t = delegated_actions_exclude_own_agent [OF a b]
  note passed = t [THEN conjunct1, THEN spec, of ?params, THEN mp, OF c]
  note names = t [THEN conjunct2, THEN conjunct2, THEN conjunct2, folded passed]
  from names d have "agentName session_A \<notin> ActionInput.name ` set [client_B]"
    by (simp add: sample_request_def client_B_def session_A_def)
  with c d show ?thesis by simp
qed

text \<open>
  The claim as stated fails: with a client-declared action named \<open>A\<close> in the request, the
  list passed to the handler of agent \<open>A\<close>, which is also the list returned, has an entry
  named \<open>A\<close>.
\<close>

theorem delegated_actions_counterexample:
  "effects (processRuntimeRequest (sample_collaborators [agent_A]) (sample_runtime False None)
       (sample_request EmptyAdapter (Some session_A) None [client_A, client_B] Pending))
     = [SetupRemoteActions,
        RemoteAgentHandlerCall
          \<lparr>RemoteAgentHandlerParams.name = ''A'', threadId = Some ''session-thread'',
           nodeName = None, metaEvents = None, actionInputsWithoutAgents = [client_A, client_B]\<rparr>]
   \<and> map_sum id CopilotRuntimeResponse.actionInputsWithoutAgents
       (result (processRuntimeRequest (sample_collaborators [agent_A]) (sample_runtime False None)
          (sample_request EmptyAdapter (Some session_A) None [client_A, client_B] Pending)))
     = Inr [client_A, client_B]
   \<and> ActionInput.name client_A = agentName session_A"
  by (simp add: processor_defs sample_defs)

section \<open>Discovery: the fold over the endpoints\<close>







lemmas discovery_defs =
  discoverAgentsFromEndpoints_def discoverEndpoint_def info_try_def platformAgents_def
  newLangGraphClient_def propertyHeaders_def properties_json_def template_def ok_def Let_def

lemmas sample_world_defs =
  sample_world_def sample_context_def direct_endpoint_def platform_endpoint_def
  info_with_id_def info_status_def



section \<open>Discovery: where the identifiers of agents come from\<close>

lemma digits_0: "digits 0 = ''0''"
  by code_simp

lemma infoAgents_ids:
  "infoAgents w ep entries n = (as, n') \<Longrightarrow>
     n' = n + length entries
     \<and> map id' as = map (randomId w) [n..<n + length entries]
     \<and> map Agent.name as = map InfoAgent.name entries
     \<and> (\<forall>a \<in> set as. endpoint a = ep)"
proof (induction entries arbitrary: n as n')
  case Nil
  then show ?case by simp
next
  case (Cons entry entries)
  obtain as0 n0 where rest: "infoAgents w ep entries (Suc n) = (as0, n0)"
    by (cases "infoAgents w ep entries (Suc n)")
  from Cons.IH [OF rest]
  have ih: "n0 = Suc n + length entries"
    "map id' as0 = map (randomId w) [Suc n..<Suc n + length entries]"
    "map Agent.name as0 = map InfoAgent.name entries"
    "\<forall>a \<in> set as0. endpoint a = ep"
    by simp_all
  from Cons.prems rest
  have as: "as = \<lparr>Agent.name = InfoAgent.name entry, id' = randomId w n,
                   description = (case InfoAgent.description entry of None \<Rightarrow> '''' | Some d \<Rightarrow> d),
                   endpoint = ep\<rparr> # as0"
    and n': "n' = n0"
    by (simp_all add: Let_def)
  have "[n..<n + length (entry # entries)] = n # [Suc n..<Suc n + length entries]"
    by (subst upt_rec) simp
  with ih as n' show ?case by simp
qed

lemma discoverEndpoint_direct_ids:
  assumes "type ep \<noteq> Some LangGraphPlatform"
    and "discoverEndpoint w ctx ep n = (Inr as, n')"
  shows "n \<le> n' \<and> map id' as = map (randomId w) [n..<n'] \<and> (\<forall>a \<in> set as. endpoint a = ep)"
proof -
  from assms obtain entries where "infoAgents w ep entries n = (as, n')"
    by (auto simp add: discoverEndpoint_def info_try_def Let_def
        split: sum.splits fetch_result.splits if_splits prod.splits)
  from infoAgents_ids [OF this] show ?thesis by simp
qed

lemma discoverEndpoint_platform_ids:
  assumes "type ep = Some LangGraphPlatform"
    and "discoverEndpoint w ctx ep n = (Inr as, n')"
  shows "n' = n \<and> (\<forall>a \<in> set as. endpoint a = ep
            \<and> (\<exists>data. assistants_search w (newLangGraphClient ep ctx) = Inr (Some data)
                  \<and> (\<exists>entry \<in> set data. id' a = assistant_id entry \<and> Agent.name a = graph_id entry)))"
  using assms
  by (fastforce simp add: discoverEndpoint_def platformAgents_def split: sum.splits option.splits)

lemma discover_reduce_ids:
  "discover_reduce w ctx eps acc n = (Inr ags, n') \<Longrightarrow>
     \<exists>new. ags = acc @ new \<and> n \<le> n'
        \<and> map id' (filter (\<lambda>a. type (endpoint a) \<noteq> Some LangGraphPlatform) new)
            = map (randomId w) [n..<n']
        \<and> (\<forall>a \<in> set new. type (endpoint a) = Some LangGraphPlatform \<longrightarrow>
              (\<exists>data. assistants_search w (newLangGraphClient (endpoint a) ctx) = Inr (Some data)
                 \<and> (\<exists>entry \<in> set data. id' a = assistant_id entry \<and> Agent.name a = graph_id entry)))"
proof (induction eps arbitrary: acc n)
  case Nil
  then show ?case by simp
next
  case (Cons ep eps)
  from Cons.prems obtain as n1 where
    step: "discoverEndpoint w ctx ep n = (Inr as, n1)"
    and rest: "discover_reduce w ctx eps (acc @ as) n1 = (Inr ags, n')"
    by (auto split: prod.splits sum.splits)
  from Cons.IH [OF rest] obtain new where
    new: "ags = (acc @ as) @ new" "n1 \<le> n'"
      "map id' (filter (\<lambda>a. type (endpoint a) \<noteq> Some LangGraphPlatform) new) = map (randomId w) [n1..<n']"
      "\<forall>a \<in> set new. type (endpoint a) = Some LangGraphPlatform \<longrightarrow>
          (\<exists>data. assistants_search w (newLangGraphClient (endpoint a) ctx) = Inr (Some data)
             \<and> (\<exists>entry \<in> set data. id' a = assistant_id entry \<and> Agent.name a = graph_id entry))"
    by blast
  show ?case
  proof (cases "type ep = Some LangGraphPlatform")
    case True
    from discoverEndpoint_platform_ids [OF True step]
    have p: "n1 = n" "\<forall>a \<in> set as. endpoint a = ep
        \<and> (\<exists>data. assistants_search w (newLangGraphClient ep ctx) = Inr (Some data)
              \<and> (\<exists>entry \<in> set data. id' a = assistant_id entry \<and> Agent.name a = graph_id entry))"
      by simp_all
    from p(2) True have none: "filter (\<lambda>a. type (endpoint a) \<noteq> Some LangGraphPlatform) as = []"
      by (simp add: filter_empty_conv)
    from p(2) have plat: "\<forall>a \<in> set as. type (endpoint a) = Some LangGraphPlatform \<longrightarrow>
          (\<exists>data. assistants_search w (newLangGraphClient (endpoint a) ctx) = Inr (Some data)
             \<and> (\<exists>entry \<in> set data. id' a = assistant_id entry \<and> Agent.name a = graph_id entry))"
      by auto
    show ?thesis
    proof (intro exI [of _ "as @ new"] conjI)
      show "ags = acc @ as @ new" using new(1) by simp
      show "n \<le> n'" using new(2) p(1) by simp
      show "map id' (filter (\<lambda>a. type (endpoint a) \<noteq> Some LangGraphPlatform) (as @ new))
          = map (randomId w) [n..<n']"
        using none new(3) p(1) by simp
      show "\<forall>a \<in> set (as @ new). type (endpoint a) = Some LangGraphPlatform \<longrightarrow>
          (\<exists>data. assistants_search w (newLangGraphClient (endpoint a) ctx) = Inr (Some data)
             \<and> (\<exists>entry \<in> set data. id' a = assistant_id entry \<and> Agent.name a = graph_id entry))"
        using plat new(4) by auto
    qed
  next
    case False
    from discoverEndpoint_direct_ids [OF False step]
    have d: "n \<le> n1" "map id' as = map (randomId w) [n..<n1]" "\<forall>a \<in> set as. endpoint a = ep"
      by simp_all
    from d(3) False have all: "filter (\<lambda>a. type (endpoint a) \<noteq> Some LangGraphPlatform) as = as"
      by (simp add: filter_id_conv)
    have split: "[n..<n'] = [n..<n1] @ [n1..<n']"
      using d(1) new(2) by (metis le_Suc_ex upt_add_eq_append)
    show ?thesis
    proof (intro exI [of _ "as @ new"] conjI)
      show "ags = acc @ as @ new" using new(1) by simp
      show "n \<le> n'" using new(2) d(1) by simp
      show "map id' (filter (\<lambda>a. type (endpoint a) \<noteq> Some LangGraphPlatform) (as @ new))
          = map (randomId w) [n..<n']"
        using all new(3) d(2) split by simp
      show "\<forall>a \<in> set (as @ new). type (endpoint a) = Some LangGraphPlatform \<longrightarrow>
          (\<exists>data. assistants_search w (newLangGraphClient (endpoint a) ctx) = Inr (Some data)
             \<and> (\<exists>entry \<in> set data. id' a = assistant_id entry \<and> Agent.name a = graph_id entry))"
        using d(3) False new(4) by auto
    qed
  qed
qed

text \<open>
  Claim C9, as amended.  When discovery returns, the agents of the endpoints it treats as
  CopilotKit endpoints carry, in the order returned, the identifiers \<open>randomId\<close> produced
  during this discovery, one fresh draw per agent, whatever the \<open>/info\<close> response holds
  for the entry; an agent of a platform endpoint carries the \<open>assistant_id\<close> of an entry
  of that endpoint's assistant search, with the entry's \<open>graph_id\<close> as its name.
\<close>

theorem discovered_agent_ids:
  assumes "discoverAgentsFromEndpoints w eps ctx n = (Inr ags, n')"
  shows "map id' (filter (\<lambda>a. type (endpoint a) \<noteq> Some LangGraphPlatform) ags)
            = map (randomId w) [n..<n']
       \<and> (\<forall>a \<in> set ags. type (endpoint a) = Some LangGraphPlatform \<longrightarrow>
              (\<exists>data. assistants_search w (newLangGraphClient (endpoint a) ctx) = Inr (Some data)
                 \<and> (\<exists>entry \<in> set data. id' a = assistant_id entry \<and> Agent.name a = graph_id entry)))"
  using discover_reduce_ids [of w ctx eps "[]" n ags n'] assms
  by (auto simp add: discoverAgentsFromEndpoints_def)

theorem discovered_agent_ids_witness:
  "discoverAgentsFromEndpoints (sample_world info_with_id (Inr []))
       [platform_endpoint, direct_endpoint] sample_context 0
     = (Inr [\<lparr>Agent.name = ''researcher'', id' = ''asst-1'', description = '''',
              endpoint = platform_endpoint\<rparr>,
             \<lparr>Agent.name = ''planner'', id' = ''ck-0'', description = ''plans'',
              endpoint = direct_endpoint\<rparr>], 1)
   \<and> map id' (filter (\<lambda>a. type (endpoint a) \<noteq> Some LangGraphPlatform)
        [\<lparr>Agent.name = ''researcher'', id' = ''asst-1'', description = '''',
              endpoint = platform_endpoint\<rparr>,
         \<lparr>Agent.name = ''planner'', id' = ''ck-0'', description = ''plans'',
              endpoint = direct_endpoint\<rparr>])
     = map (randomId (sample_world info_with_id (Inr []))) [0..<1]"
proof -
  have run: "discoverAgentsFromEndpoints (sample_world info_with_id (Inr []))
       [platform_endpoint, direct_endpoint] sample_context 0
     = (Inr [\<lparr>Agent.name = ''researcher'', id' = ''asst-1'', description = '''',
              endpoint = platform_endpoint\<rparr>,
             \<lparr>Agent.name = ''planner'', id' = ''ck-0'', description = ''plans'',
              endpoint = direct_endpoint\<rparr>], 1)"
    by (simp add: discovery_defs sample_world_defs digits_0)
  from discovered_agent_ids [OF run] run show ?thesis by simp
qed

text \<open>
  The claim as stated fails: the only agent entry of this \<open>/info\<close> response supplies the
  id \<open>srv-1\<close>, and the agent discovered from it carries the identifier drawn from
  \<open>randomId\<close>.
\<close>

theorem discovered_agent_ids_counterexample:
  "info_with_id =
     FetchReturns \<lparr>status = 200,
       json = Inr (Some \<lparr>InfoResponse.agents = Some [\<lparr>InfoAgent.name = ''planner'',
                             description = Some ''plans'', extra = [(''id'', JStr ''srv-1'')]\<rparr>]\<rparr>)\<rparr>
   \<and> fst (discoverAgentsFromEndpoints (sample_world info_with_id (Inr []))
            [direct_endpoint] sample_context 0)
     = Inr [\<lparr>Agent.name = ''planner'', id' = ''ck-0'', description = ''plans'',
             endpoint = direct_endpoint\<rparr>]"
  by (simp add: discovery_defs sample_world_defs digits_0)

section \<open>The state of an agent on a platform endpoint\<close>

lemma loadAgentState_platform:
  assumes "discoverAgentsFromEndpoints w eps ctx n = (Inr ags, n')"
    and "find (\<lambda>agent. Agent.name agent = agent_name) ags = Some ag"
    and "type (endpoint ag) = Some LangGraphPlatform"
    and "createHeaders w None ctx = Inr hs"
  shows "loadAgentState w eps ctx thread_id agent_name n
       = (loadState_platform w ctx thread_id (endpoint ag), n')"
  using assms by (simp add: loadAgentState_def)

lemma stringify_empty: "JSON_stringify (JObj []) = ''{}''" "JSON_stringify (JArr []) = ''[]''"
  by simp_all

text \<open>
  Let \<open>loadAgentState\<close> resolve the agent name to an agent of a platform endpoint
  (discovery returns, the agent is found, the headers are built).  If the thread-state
  query throws, or returns a state without keys, the call returns, without an error, the
  snapshot with \<open>threadExists = false\<close>, \<open>state = "{}"\<close> and \<open>messages = "[]"\<close>.
\<close>

lemma platform_state_fallback:
  assumes "discoverAgentsFromEndpoints w eps ctx n = (Inr ags, n')"
    and "find (\<lambda>agent. Agent.name agent = agent_name) ags = Some ag"
    and "type (endpoint ag) = Some LangGraphPlatform"
    and "createHeaders w None ctx = Inr hs"
    and "(\<exists>e. threads_getState w (newLangGraphClient (endpoint ag) ctx) thread_id = Inl e)
         \<or> threads_getState w (newLangGraphClient (endpoint ag) ctx) thread_id
              = Inr \<lparr>values' = Some []\<rparr>"
  shows "fst (loadAgentState w eps ctx thread_id agent_name n)
       = Inr \<lparr>LoadAgentStateResponse.threadId = thread_id, threadExists = False,
              state = ''{}'', messages = ''[]''\<rparr>"
  using assms(5) unfolding loadAgentState_platform [OF assms(1-4)]
  by (auto simp add: loadState_platform_def Let_def)

text \<open>
  If the query returns a state with keys, the call does what the conversion of the state's
  \<open>messages\<close> does.  When the conversion returns, the call returns the snapshot with
  \<open>threadExists = true\<close>, whose \<open>state\<close> is the serialisation of the state without its
  \<open>messages\<close> key and whose \<open>messages\<close> is the serialisation of the converted messages.
  When the conversion throws, the call throws the same error: nothing catches it.
\<close>

lemma platform_state_converted:
  assumes "discoverAgentsFromEndpoints w eps ctx n = (Inr ags, n')"
    and "find (\<lambda>agent. Agent.name agent = agent_name) ags = Some ag"
    and "type (endpoint ag) = Some LangGraphPlatform"
    and "createHeaders w None ctx = Inr hs"
    and "threads_getState w (newLangGraphClient (endpoint ag) ctx) thread_id
           = Inr \<lparr>values' = Some st\<rparr>"
    and "st \<noteq> []"
  shows "fst (loadAgentState w eps ctx thread_id agent_name n)
       = (case langchainMessagesToCopilotKit w (map_of st ''messages'') of
            Inl e \<Rightarrow> Inl e
          | Inr converted \<Rightarrow>
              Inr \<lparr>LoadAgentStateResponse.threadId = thread_id, threadExists = True,
                   state = JSON_stringify (JObj (filter (\<lambda>kv. fst kv \<noteq> ''messages'') st)),
                   messages = JSON_stringify converted\<rparr>)"
  using assms(5,6) unfolding loadAgentState_platform [OF assms(1-4)]
  by (auto simp add: loadState_platform_def Let_def split: sum.splits)

lemma sample_discovery:
  "discoverAgentsFromEndpoints (sample_world info_with_id ts)
       [platform_endpoint, direct_endpoint] sample_context 0
     = (Inr [\<lparr>Agent.name = ''researcher'', id' = ''asst-1'', description = '''',
              endpoint = platform_endpoint\<rparr>,
             \<lparr>Agent.name = ''planner'', id' = ''ck-0'', description = ''plans'',
              endpoint = direct_endpoint\<rparr>], 1)"
  by (simp add: discovery_defs sample_world_defs digits_0)

text \<open>
  Claim C6, at a failing input.  The agent \<open>researcher\<close> is on a platform endpoint and the
  state of its thread is \<open>{"step": 3}\<close>: it has a key, and no \<open>messages\<close>.  The call
  does not return the snapshot with \<open>threadExists = true\<close>: the conversion is applied to
  the absent \<open>messages\<close> and throws, and the call throws that error.  With
  \<open>{"messages": [], "step": 3}\<close> the call returns that snapshot, and when the query throws
  it returns the empty one.
\<close>

theorem platform_state_without_messages_throws:
  "fst (loadAgentState (sample_world info_with_id (Inr [(''step'', JNum 3)]))
          [platform_endpoint, direct_endpoint] sample_context ''t1'' ''researcher'' 0)
     = Inl (Error ''TypeError: messages is not iterable'')
   \<and> fst (loadAgentState (sample_world info_with_id (Inr [(''messages'', JArr []), (''step'', JNum 3)]))
          [platform_endpoint, direct_endpoint] sample_context ''t1'' ''researcher'' 0)
     = Inr \<lparr>LoadAgentStateResponse.threadId = ''t1'', threadExists = True,
            state = JSON_stringify (JObj [(''step'', JNum 3)]), messages = ''[]''\<rparr>
   \<and> fst (loadAgentState (sample_world info_with_id (Inl (Error ''thread not reachable'')))
          [platform_endpoint, direct_endpoint] sample_context ''t1'' ''researcher'' 0)
     = Inr \<lparr>LoadAgentStateResponse.threadId = ''t1'', threadExists = False,
            state = ''{}'', messages = ''[]''\<rparr>"
proof -
  let ?ags = "[\<lparr>Agent.name = ''researcher'', id' = ''asst-1'', description = '''',
              endpoint = platform_endpoint\<rparr>,
             \<lparr>Agent.name = ''planner'', id' = ''ck-0'', description = ''plans'',
              endpoint = direct_endpoint\<rparr>]"
  have found: "find (\<lambda>agent. Agent.name agent = ''researcher'') ?ags = Some (hd ?ags)"
    by simp
  have plat: "type (endpoint (hd ?ags)) = Some LangGraphPlatform"
    by (simp add: platform_endpoint_def)
  have hs: "createHeaders (sample_world info_with_id ts) None sample_context
      = Inr [(''Content-Type'', ''application/json'')]" for ts
    by (simp add: sample_world_def)
  have get: "threads_getState (sample_world info_with_id (Inr st)) c t = Inr \<lparr>values' = Some st\<rparr>"
    for st c t
    by (simp add: sample_world_def)
  have get_throws: "threads_getState (sample_world info_with_id (Inl e)) c t = Inl e" for e c t
    by (simp add: sample_world_def)
  have conv: "langchainMessagesToCopilotKit (sample_world info_with_id ts) m
      = (case m of None \<Rightarrow> Inl (Error ''TypeError: messages is not iterable'')
         | Some j \<Rightarrow> Inr (JArr []))" for ts m
    by (simp add: sample_world_def)
  have a: "fst (loadAgentState (sample_world info_with_id (Inr [(''step'', JNum 3)]))
          [platform_endpoint, direct_endpoint] sample_context ''t1'' ''researcher'' 0)
     = Inl (Error ''TypeError: messages is not iterable'')"
    by (simp add: platform_state_converted [OF sample_discovery found plat hs get] conv)
  have b: "fst (loadAgentState (sample_world info_with_id (Inr [(''messages'', JArr []), (''step'', JNum 3)]))
          [platform_endpoint, direct_endpoint] sample_context ''t1'' ''researcher'' 0)
     = Inr \<lparr>LoadAgentStateResponse.threadId = ''t1'', threadExists = True,
            state = JSON_stringify (JObj [(''step'', JNum 3)]), messages = ''[]''\<rparr>"
    by (simp add: platform_state_converted [OF sample_discovery found plat hs get] conv)
  have c: "fst (loadAgentState (sample_world info_with_id (Inl (Error ''thread not reachable'')))
          [platform_endpoint, direct_endpoint] sample_context ''t1'' ''researcher'' 0)
     = Inr \<lparr>LoadAgentStateResponse.threadId = ''t1'', threadExists = False,
            state = ''{}'', messages = ''[]''\<rparr>"
    by (rule platform_state_fallback [OF sample_discovery found plat hs])
      (simp add: get_throws)
  from a b c show ?thesis by simp
qed

section \<open>Static actions of a runtime with remote endpoints\<close>

text \<open>
  Claim C10.  A runtime constructed with both \<open>actions\<close> and \<open>remoteEndpoints\<close> (a
  non-empty list, or an empty one) has the empty list as its action configuration: it is
  the very runtime the same parameters without \<open>actions\<close> construct.  The server-side
  actions of any of its turns are therefore the loaded langserve chains followed by the
  remote actions that \<open>setupRemoteActions\<close> resolves, and nothing else.
\<close>

theorem static_actions_ignored:
  assumes "CopilotRuntimeConstructorParams.actions p = Some cfg"
    and "remoteEndpoints p = Some eps"
  shows "CopilotRuntime.actions (snd (constructor w (Some p))) = ActionList []
       \<and> snd (constructor w (Some p))
           = snd (constructor w (Some (p\<lparr>CopilotRuntimeConstructorParams.actions := None\<rparr>)))
       \<and> (\<forall>request effs ssa.
             getServerSideActions w (snd (constructor w (Some p))) request = (effs, Inr ssa)
             \<longrightarrow> (\<exists>remote.
                    setupRemoteActions w
                      (map (\<lambda>endpoint. endpoint\<lparr>type := Some (resolveEndpointType endpoint)\<rparr>) eps)
                      (graphqlContext request)
                      (convertGqlInputToMessages w (CopilotRuntimeRequest.messages request))
                      (CopilotRuntimeRequest.agentStates request)
                      (CopilotRuntimeRequest.url request) = Inr remote
                    \<and> ssa = map projr (filter (\<lambda>c. \<not> isl c)
                               (CopilotRuntime.langserve (snd (constructor w (Some p))))) @ remote))"
proof (intro conjI allI impI)
  show "CopilotRuntime.actions (snd (constructor w (Some p))) = ActionList []"
    using assms by (simp add: constructor_def Let_def)
  show "snd (constructor w (Some p))
      = snd (constructor w (Some (p\<lparr>CopilotRuntimeConstructorParams.actions := None\<rparr>)))"
    using assms by (simp add: constructor_def Let_def)
next
  fix request effs ssa
  assume g: "getServerSideActions w (snd (constructor w (Some p))) request = (effs, Inr ssa)"
  have a: "CopilotRuntime.actions (snd (constructor w (Some p))) = ActionList []"
    and e: "CopilotRuntime.remoteEndpointDefinitions (snd (constructor w (Some p))) = eps"
    using assms by (simp_all add: constructor_def Let_def)
  from g show "\<exists>remote.
      setupRemoteActions w
        (map (\<lambda>endpoint. endpoint\<lparr>type := Some (resolveEndpointType endpoint)\<rparr>) eps)
        (graphqlContext request)
        (convertGqlInputToMessages w (CopilotRuntimeRequest.messages request))
        (CopilotRuntimeRequest.agentStates request)
        (CopilotRuntimeRequest.url request) = Inr remote
      \<and> ssa = map projr (filter (\<lambda>c. \<not> isl c)
                 (CopilotRuntime.langserve (snd (constructor w (Some p))))) @ remote"
    unfolding getServerSideActions_def a e
    by (simp add: langserve_loop_eq Let_def split: sum.splits)
qed

theorem static_actions_ignored_witness:
  "CopilotRuntimeConstructorParams.actions sample_params = Some (ActionList [static_action])
   \<and> remoteEndpoints sample_params = Some [direct_endpoint]
   \<and> getServerSideActions (sample_collaborators [agent_A])
        (snd (constructor (sample_collaborators [agent_A]) (Some sample_params)))
        (sample_request sample_adapter None None [] Pending)
     = ([SetupRemoteActions], Inr [agent_A])
   \<and> CopilotRuntime.actions (snd (constructor (sample_collaborators [agent_A]) (Some sample_params)))
     = ActionList []"
proof -
  have a: "CopilotRuntimeConstructorParams.actions sample_params = Some (ActionList [static_action])"
    and b: "remoteEndpoints sample_params = Some [direct_endpoint]"
    by (simp_all add: sample_params_def)
  have g: "getServerSideActions (sample_collaborators [agent_A])
        (snd (constructor (sample_collaborators [agent_A]) (Some sample_params)))
        (sample_request sample_adapter None None [] Pending)
     = ([SetupRemoteActions], Inr [agent_A])"
    by (simp add: getServerSideActions_def constructor_def sample_params_def
        sample_collaborators_def sample_request_def Let_def)
  from static_actions_ignored [OF a b, of "sample_collaborators [agent_A]", THEN conjunct1] a b g
  show ?thesis by simp
qed

section \<open>The after-hook\<close>

lemma getServerSideActions_after_hook:
  "getServerSideActions w (rt\<lparr>onAfterRequest := hook\<rparr>) (request\<lparr>outputMessagesPromise := outp\<rparr>)
     = getServerSideActions w rt request"
  by (simp add: getServerSideActions_def cong: prod.case_cong sum.case_cong ActionsConfiguration.case_cong)

lemma directDispatch_after_hook:
  "effects (directDispatch w (rt\<lparr>onAfterRequest := hook\<rparr>) (request\<lparr>outputMessagesPromise := outp\<rparr>) process)
     = effects (directDispatch w rt request process)
   \<and> result (directDispatch w (rt\<lparr>onAfterRequest := hook\<rparr>) (request\<lparr>outputMessagesPromise := outp\<rparr>) process)
     = result (directDispatch w rt request process)"
  by (simp add: directDispatch_def getServerSideActions_after_hook Let_def throws_def
      split: prod.splits sum.splits cong: prod.case_cong sum.case_cong)

lemma processAgentRequest_after_hook:
  "effects (processAgentRequest w (rt\<lparr>onAfterRequest := hook\<rparr>) (request\<lparr>outputMessagesPromise := outp\<rparr>))
     = effects (processAgentRequest w rt request)
   \<and> result (processAgentRequest w (rt\<lparr>onAfterRequest := hook\<rparr>) (request\<lparr>outputMessagesPromise := outp\<rparr>))
     = result (processAgentRequest w rt request)"
  by (simp add: processAgentRequest_def getServerSideActions_after_hook Let_def throws_def
      split: prod.splits sum.splits option.splits cong: prod.case_cong sum.case_cong option.case_cong)

lemma catch_turn_cong:
  "effects a = effects b \<and> result a = result b \<Longrightarrow>
     effects (catch_turn a) = effects (catch_turn b) \<and> result (catch_turn a) = result (catch_turn b)"
  by (simp add: catch_turn_def split: sum.splits)

text \<open>
  Neither the after-hook nor the promise of the outp messages has any part in what a
  turn does before it returns, or in what it returns: a hook that fails in any way, and a
  promise that is rejected or never settles, leave the effects and the result as they are.
\<close>

lemma after_hook_never_changes_turn:
  "effects (processRuntimeRequest w (rt\<lparr>onAfterRequest := hook\<rparr>) (request\<lparr>outputMessagesPromise := outp\<rparr>))
     = effects (processRuntimeRequest w rt request)
   \<and> result (processRuntimeRequest w (rt\<lparr>onAfterRequest := hook\<rparr>) (request\<lparr>outputMessagesPromise := outp\<rparr>))
     = result (processRuntimeRequest w rt request)"
proof -
  have "effects (catch_turn (throws [] e)) = effects (catch_turn (throws [] e))
      \<and> result (catch_turn (throws [] e)) = result (catch_turn (throws [] e))" for e
    by simp
  then show ?thesis
    unfolding processRuntimeRequest_def
    by (simp add: catch_turn_cong [OF processAgentRequest_after_hook]
        catch_turn_cong [OF directDispatch_after_hook] split: CopilotServiceAdapter.splits)
qed

text \<open>The hook is called only with the outp messages the promise was fulfilled with.\<close>

lemma after_hook_invoked_after_fulfilment:
  "opts \<in> set (invoked (scheduleAfterRequest hook outp options)) \<Longrightarrow>
     \<exists>out. outp = Fulfilled out \<and> opts = options out"
  by (auto simp add: scheduleAfterRequest_def split: promise.splits option.splits)

text \<open>
  The chain never ends rejected: a rejection of the promise of the outp messages and a
  throw of the hook are both received by the \<open>catch\<close> handler.
\<close>

lemma after_hook_chain_never_rejected:
  "chain (scheduleAfterRequest hook outp options)
     = (case outp of Pending \<Rightarrow> Pending | _ \<Rightarrow> Fulfilled ())"
  by (simp add: scheduleAfterRequest_def promise_then_def promise_catch_def
      afterRequest_callback_def split: promise.splits option.splits sum.splits)

text \<open>
  A promise the hook returns is not part of the chain: when it is rejected, no handler
  receives the rejection.
\<close>

lemma after_hook_returned_promise_unhandled:
  "hook (options out) = Inr (ReturnsPromise (Rejected e)) \<Longrightarrow>
     unhandledRejections (scheduleAfterRequest (Some hook) (Fulfilled out) options) = [e]"
  by (simp add: unhandledRejections_def scheduleAfterRequest_def promise_then_def
      promise_catch_def afterRequest_callback_def)

text \<open>
  Claim C8, at a failing input.  The runtime has an after-hook that is an \<open>async\<close> function
  which throws, the turn is a successful direct dispatch, and the promise of the outp
  messages is fulfilled.  The turn returns its response, the hook is called once, and the
  rejection of the promise the hook returned is received by no handler: it is not caught.
\<close>

theorem after_hook_async_rejection_not_caught:
  "map_sum id CopilotRuntimeResponse.threadId
     (result (processRuntimeRequest (sample_collaborators [])
        (sample_runtime False (Some rejecting_after_hook))
        (sample_request sample_adapter None None [] (Fulfilled []))))
     = Inr (Some ''backend-thread'')
   \<and> map_option (\<lambda>t. length (invoked t))
       (afterRequest (processRuntimeRequest (sample_collaborators [])
          (sample_runtime False (Some rejecting_after_hook))
          (sample_request sample_adapter None None [] (Fulfilled []))))
     = Some 1
   \<and> map_option unhandledRejections
       (afterRequest (processRuntimeRequest (sample_collaborators [])
          (sample_runtime False (Some rejecting_after_hook))
          (sample_request sample_adapter None None [] (Fulfilled []))))
     = Some [Error ''after-hook failed'']"
  by (simp add: processor_defs sample_defs rejecting_after_hook_def unhandledRejections_def)

end
